theory Spec2Isabelle
  imports Main "HOL-Library.Monad_Syntax"
begin

section \<open>Strings and lexical paths (Go: strings, path/filepath on Unix)\<close>

text \<open>
  Go strings are byte sequences; a \<^typ>\<open>string\<close> here is the list of those bytes.
  The functions of this section are the standard-library functions the server core calls
  on the path of its configuration file: \<^verbatim>\<open>strings.HasPrefix\<close>, \<^verbatim>\<open>strings.Join\<close>,
  \<^verbatim>\<open>filepath.Clean\<close>, \<^verbatim>\<open>filepath.Dir\<close> and \<^verbatim>\<open>filepath.Join\<close>
  (separator \<^verbatim>\<open>/\<close>, no volume names).
\<close>

definition HasPrefix :: "string \<Rightarrow> string \<Rightarrow> bool" where
  "HasPrefix s pre = (take (length pre) s = pre)"

fun strings_Join :: "string list \<Rightarrow> string \<Rightarrow> string" where
  "strings_Join [] sep = []"
| "strings_Join [e] sep = e"
| "strings_Join (e # es) sep = e @ sep @ strings_Join es sep"

text \<open>The elements of a path: the pieces between its separators.\<close>

fun elements :: "string \<Rightarrow> string list" where
  "elements [] = [[]]"
| "elements (c # cs) =
     (if c = CHR ''/'' then [] # elements cs
      else (case elements cs of
              [] \<Rightarrow> [[c]]
            | e # es \<Rightarrow> (c # e) # es))"

text \<open>
  One step of the loop of \<^verbatim>\<open>filepath.Clean\<close> on a path element that is neither empty
  nor \<^verbatim>\<open>.\<close>; \<open>out\<close> holds the elements written so far. On \<^verbatim>\<open>..\<close> the last element
  written is removed when there is one to backtrack over (one that is not itself a
  leading \<^verbatim>\<open>..\<close>); otherwise \<^verbatim>\<open>..\<close> is kept on a path that is not rooted and dropped
  on a rooted one.
\<close>

definition clean_step :: "bool \<Rightarrow> string list \<Rightarrow> string \<Rightarrow> string list" where
  "clean_step rooted out e =
     (if e = ''..'' then
        (if out \<noteq> [] \<and> last out \<noteq> ''..'' then butlast out
         else if \<not> rooted then out @ [''..'']
         else out)
      else out @ [e])"

definition Clean :: "string \<Rightarrow> string" where
  "Clean path =
     (if path = [] then ''.''
      else
        (let rooted = (hd path = CHR ''/'');
             out = foldl (clean_step rooted) []
                     (filter (\<lambda>e. e \<noteq> [] \<and> e \<noteq> ''.'') (elements path));
             body = strings_Join out ''/''
         in if rooted then CHR ''/'' # body
            else if body = [] then ''.''
            else body))"

text \<open>\<^verbatim>\<open>filepath.Dir\<close>: everything up to and including the last separator, cleaned.\<close>

definition Dir :: "string \<Rightarrow> string" where
  "Dir path = Clean (rev (dropWhile (\<lambda>c. c \<noteq> CHR ''/'') (rev path)))"

text \<open>
  \<^verbatim>\<open>filepath.Join\<close>: leading empty elements are ignored, the rest is joined with the
  separator and cleaned; no non-empty element gives the empty string.
\<close>

definition Join :: "string list \<Rightarrow> string" where
  "Join elem =
     (case dropWhile (\<lambda>e. e = []) elem of
        [] \<Rightarrow> []
      | es \<Rightarrow> Clean (strings_Join es ''/''))"

text \<open>
  \<^verbatim>\<open>filepath.Ext\<close>: the suffix of the last element of the path that begins at its
  final dot; it is empty when that element has no dot.
\<close>

definition Ext :: "string \<Rightarrow> string" where
  "Ext path =
     (let base = takeWhile (\<lambda>c. c \<noteq> CHR ''/'') (rev path)
      in if CHR ''.'' \<in> set base
         then CHR ''.'' # rev (takeWhile (\<lambda>c. c \<noteq> CHR ''.'') base)
         else [])"

text \<open>\<^verbatim>\<open>strings.Split\<close> on a separator of one byte.\<close>

fun Split :: "string \<Rightarrow> char \<Rightarrow> string list" where
  "Split [] sep = [[]]"
| "Split (c # cs) sep =
     (if c = sep then [] # Split cs sep
      else (case Split cs sep of
              [] \<Rightarrow> [[c]]
            | e # es \<Rightarrow> (c # e) # es))"

text \<open>
  The path normalisation that \<^verbatim>\<open>InitConfig\<close> (lines 102-116) and \<^verbatim>\<open>InitTLS\<close>
  (lines 127-132) write out in line for each path-bearing field:
  \<^verbatim>\<open>if !strings.HasPrefix(p, "/") { p = filepath.Join(base, p) }\<close>.
  The specification calls it \<^verbatim>\<open>PathResolver.Resolve(base_dir, path)\<close>.
\<close>

definition Resolve :: "string \<Rightarrow> string \<Rightarrow> string" where
  "Resolve base_dir path =
     (if \<not> HasPrefix path ''/'' then Join [base_dir, path] else path)"

section \<open>The configuration structure (package server/config)\<close>

text \<open>
  Modelled from the spec: the declaration of \<^verbatim>\<open>config.Config\<close> is not among the
  sources. Its sections and fields are the ones \<^verbatim>\<open>SaveConfig\<close> reads (lines 159-186)
  and section 3 of the specification lists: HTTP (address, TLS flag), TLS (certificate
  path, key path), Db, Etcd, Auth (JWT secret, access and refresh token expiry) and Log.
  Paths, names, hosts and secrets are strings, ports and rotation limits integers, flags
  booleans, and an expiry is a duration counted in nanoseconds. Go's
  \<^verbatim>\<open>Config.TLS.Cert\<close> is \<open>TLS_Cert (cfg_TLS c)\<close> here.
\<close>

record http_cfg =
  HTTP_Addr :: string
  HTTP_TLS :: bool

record tls_cfg =
  TLS_Cert :: string
  TLS_Key :: string

record db_cfg =
  Db_Driver :: string
  Db_Host :: string
  Db_Port :: int
  Db_User :: string
  Db_Password :: string
  Db_Name :: string
  Db_Charset :: string

record etcd_cfg =
  Etcd_Name :: string
  Etcd_Host :: string
  Etcd_ClientPort :: int
  Etcd_PeerPort :: int
  Etcd_DataDir :: string
  Etcd_Username :: string
  Etcd_Password :: string
  Etcd_RootPassword :: string

record auth_cfg =
  Auth_JWTSecret :: string
  Auth_JWTExpiry :: int
  Auth_JWTRefreshExpiry :: int

record log_cfg =
  Log_Level :: string
  Log_Stdout :: bool
  Log_Filename :: string
  Log_MaxSize :: int
  Log_MaxBackups :: int
  Log_MaxAge :: int

record config =
  cfg_HTTP :: http_cfg
  cfg_TLS :: tls_cfg
  cfg_Db :: db_cfg
  cfg_Etcd :: etcd_cfg
  cfg_Auth :: auth_cfg
  cfg_Log :: log_cfg

text \<open>The zero value of the structure: what a freshly allocated \<^verbatim>\<open>Config\<close> holds.\<close>

definition zero_config :: config where
  "zero_config =
     \<lparr>cfg_HTTP = \<lparr>HTTP_Addr = [], HTTP_TLS = False\<rparr>,
      cfg_TLS = \<lparr>TLS_Cert = [], TLS_Key = []\<rparr>,
      cfg_Db = \<lparr>Db_Driver = [], Db_Host = [], Db_Port = 0, Db_User = [], Db_Password = [],
                Db_Name = [], Db_Charset = []\<rparr>,
      cfg_Etcd = \<lparr>Etcd_Name = [], Etcd_Host = [], Etcd_ClientPort = 0, Etcd_PeerPort = 0,
                  Etcd_DataDir = [], Etcd_Username = [], Etcd_Password = [],
                  Etcd_RootPassword = []\<rparr>,
      cfg_Auth = \<lparr>Auth_JWTSecret = [], Auth_JWTExpiry = 0, Auth_JWTRefreshExpiry = 0\<rparr>,
      cfg_Log = \<lparr>Log_Level = [], Log_Stdout = False, Log_Filename = [], Log_MaxSize = 0,
                 Log_MaxBackups = 0, Log_MaxAge = 0\<rparr>\<rparr>"

section \<open>The world the server core runs in\<close>

text \<open>
  A configuration value as the key/value binder (viper) holds it: a string, a number or
  a boolean.
\<close>

datatype val = VStr string | VInt int | VBool bool

text \<open>A command-line flag (pflag): its current value and whether the command line set it.\<close>

record flag =
  Value :: val
  Changed :: bool

text \<open>
  The state of the package-level binder. \<open>v_override\<close> holds what \<^verbatim>\<open>viper.Set\<close>
  stored, \<open>v_pflags\<close> maps a key to the name of the flag \<^verbatim>\<open>viper.BindPFlag\<close> bound
  to it (the binder keeps a reference to the flag, not a copy of its value), and
  \<open>v_config\<close> is what \<^verbatim>\<open>viper.ReadInConfig\<close> read from the file. The program never
  calls \<^verbatim>\<open>SetDefault\<close>, \<^verbatim>\<open>BindEnv\<close>, \<^verbatim>\<open>RegisterAlias\<close> or a remote store, so
  those tiers are empty and left out. Keys are the lower-case dotted names the source
  writes. The binder keeps what \<^verbatim>\<open>Set\<close> stored and what it read from the file as
  trees of sections; they are held flat here, by the dotted keys of their plain values.
  The keys the program stores with \<^verbatim>\<open>Set\<close> (lines 159-186) and binds to flags (lines
  33-60) are the 28 keys of six sections, none of them above or below another, so among
  them no value hides or replaces another. A file is free to hold a plain value where
  the program expects a section; a file that holds a section where the program expects a
  plain value is not covered.
\<close>

record viper =
  v_configFile :: string
  v_configType :: string
  v_envPrefix :: string
  v_envKeyReplacer :: "(char \<times> char) option"
  v_automaticEnvApplied :: bool
  v_override :: "(string \<times> val) list"
  v_pflags :: "(string \<times> string) list"
  v_config :: "(string \<times> val) list"

text \<open>
  What a file holds: settings encoded as a document of one of the binder's formats
  (\<^verbatim>\<open>json\<close>, \<^verbatim>\<open>yaml\<close>, \<^verbatim>\<open>toml\<close>, ...), nothing (a file that was created or
  truncated and not written), or something else. The settings of a document are given
  flat, as the plain values (strings, numbers, booleans) it holds under their dotted
  keys: the JSON object \<^verbatim>\<open>{"db": {"host": "h"}}\<close> is \<open>[(''db.host'', VStr ''h'')]\<close>.
\<close>

datatype content = Encoded string "(string \<times> val) list" | Empty | Other

text \<open>
  What can go wrong at a path when the file there is written, apart from a missing
  directory: the file cannot be opened; or it is opened, which creates or truncates it,
  and the data cannot be written; or the data is written and the final sync fails.
\<close>

datatype fault = OpenFault | WriteFault | SyncFault

text \<open>
  A file system is the regular files with their contents, the directories that exist,
  and the paths at which a write meets a fault.
\<close>

record filesystem =
  files :: "(string \<times> content) list"
  dirs :: "string list"
  faults :: "(string \<times> fault) list"

datatype error =
    HomeDirError
  | DirectoryCreateError
  | PersistError
  | ConfigReadError
  | ConfigParseError
  | DecodeError
  | LoggerError
  | TLSGenerationError
  | DatabaseConnectError

text \<open>The logger \<^verbatim>\<open>logger.NewLogger\<close> builds, known by the section it was built from.\<close>

datatype logger = Logger log_cfg

text \<open>
  What the program has done to its collaborators and to the disk, in the order it did
  it: an authentication set-up, an established database connection, a logged message, a
  file written (a write that succeeded), a directory made, an error printed.
\<close>

datatype event =
    AuthInit string int int
  | DbConnect db_cfg
  | LogInfo string
  | FileWritten string
  | DirMade string
  | Printed error

text \<open>
  Conversions between kinds of values belong to the decoding libraries (mapstructure's
  weakly typed input, cast) and are parameters of the model: \<open>weak_string v\<close> is the
  string a number or boolean decodes to, \<open>weak_int\<close>, \<open>weak_bool\<close> and
  \<open>weak_duration\<close> what a value of another kind (the text of an environment variable,
  say) decodes to, and \<open>None\<close> a decoding error. \<open>cast_string\<close> and \<open>cast_duration\<close>
  are the conversions of \<^verbatim>\<open>viper.GetString\<close> and \<^verbatim>\<open>viper.GetDuration\<close>, which give
  a zero value instead of an error. \<open>new_logger_ok\<close> tells whether
  \<^verbatim>\<open>logger.NewLogger\<close> succeeds on a log section, and \<open>db_reachable\<close> whether
  \<^verbatim>\<open>db.Connect\<close> can establish a connection with a database section.
  \<open>decode_other\<close> stands for the binder's decoders of the formats other than JSON,
  which the program never selects: what they make of the content of a file, by the type
  of configuration file.
\<close>

record library =
  weak_string :: "val \<Rightarrow> string option"
  weak_int :: "val \<Rightarrow> int option"
  weak_bool :: "val \<Rightarrow> bool option"
  weak_duration :: "val \<Rightarrow> int option"
  cast_string :: "val \<Rightarrow> string"
  cast_duration :: "val \<Rightarrow> int"
  new_logger_ok :: "log_cfg \<Rightarrow> bool"
  db_reachable :: "db_cfg \<Rightarrow> bool"
  decode_other :: "string \<Rightarrow> content \<Rightarrow> (string \<times> val) list option"

text \<open>
  The package-level variables \<^verbatim>\<open>ConfigFile\<close>, \<^verbatim>\<open>Config\<close> and \<^verbatim>\<open>Log\<close> (lines 20-27;
  a nil pointer is \<open>None\<close>), the binder, the persistent flags of the root command, the
  process environment, the home directory \<^verbatim>\<open>fs.GetHomeDir\<close> finds (\<open>None\<close>: it
  fails), the file system, and the state of the authentication and database packages.
\<close>

record world =
  ConfigFile :: string
  Config :: "config option"
  Log :: "logger option"
  vp :: viper
  flagset :: "(string \<times> flag) list"
  environ :: "(string \<times> string) list"
  homedir :: "string option"
  fsys :: filesystem
  auth_state :: "(string \<times> int \<times> int) option"
  db_conn :: "(db_cfg \<times> logger option) option"
  trace :: "event list"
  lib :: library

text \<open>
  A call returns a value, ends the process (\<^verbatim>\<open>fatal\<close>: print and \<^verbatim>\<open>os.Exit(1)\<close>) or
  panics (a nil pointer dereference). Each comes with the world it leaves behind.
\<close>

datatype 'a outcome = Return 'a | Exit error | Panic

type_synonym 'a prog = "world \<Rightarrow> 'a outcome \<times> world"

definition andThen :: "'a prog \<Rightarrow> ('a \<Rightarrow> 'b prog) \<Rightarrow> 'b prog" where
  "andThen m f w =
     (case m w of
        (Return x, w') \<Rightarrow> f x w'
      | (Exit e, w') \<Rightarrow> (Exit e, w')
      | (Panic, w') \<Rightarrow> (Panic, w'))"

text \<open>A block of statements: each runs in the world the one before left, while they return.\<close>

fun seq :: "unit prog list \<Rightarrow> unit prog" where
  "seq [] w = (Return (), w)"
| "seq (s # ss) w = andThen s (\<lambda>_. seq ss) w"

text \<open>A statement that only updates the world.\<close>

definition upd :: "(world \<Rightarrow> world) \<Rightarrow> unit prog" where
  "upd f w = (Return (), f w)"

text \<open>Lines 195-198.\<close>

definition fatal :: "error \<Rightarrow> 'a prog" where
  "fatal msg w = (Exit msg, w\<lparr>trace := trace w @ [Printed msg]\<rparr>)"


section \<open>The file system (package pkg/fs, os)\<close>

text \<open>
  Modelled from the spec: package \<^verbatim>\<open>pkg/fs\<close> is not among the sources. \<^verbatim>\<open>fs.Exists\<close>
  tells whether a file or a directory exists at a path, and \<^verbatim>\<open>fs.MakeDir\<close> ensures
  that a directory exists, failing (\<^verbatim>\<open>DirectoryCreateError\<close>) when it cannot be
  created, which here is when a regular file has the name.
\<close>

definition fs_Exists :: "world \<Rightarrow> string \<Rightarrow> bool" where
  "fs_Exists w path =
     (path \<in> set (dirs (fsys w)) \<or> map_of (files (fsys w)) path \<noteq> None)"

text \<open>
  Modelled from the spec: \<^verbatim>\<open>fs.MakeDir\<close> leaves the directory in place, or fails
  without a change.
\<close>

definition fs_MakeDir :: "string \<Rightarrow> world \<Rightarrow> error option \<times> world" where
  "fs_MakeDir dirpath w =
     (if map_of (files (fsys w)) dirpath \<noteq> None then (Some DirectoryCreateError, w)
      else (None, w\<lparr>fsys := (fsys w)\<lparr>dirs := dirpath # dirs (fsys w)\<rparr>,
                     trace := trace w @ [DirMade dirpath]\<rparr>))"

definition put :: "'k \<Rightarrow> 'v \<Rightarrow> ('k \<times> 'v) list \<Rightarrow> ('k \<times> 'v) list" where
  "put k v m = (k, v) # filter (\<lambda>p. fst p \<noteq> k) m"

text \<open>
  Writing a file the way \<^verbatim>\<open>os.OpenFile\<close> with \<^verbatim>\<open>O_CREATE|O_TRUNC|O_WRONLY\<close>, a
  write and a sync do it. Opening needs a path that is not empty, the directory of the
  path to exist and the path not to name a directory, and it creates the file or
  truncates it. When the data cannot
  be written after that, the file is left empty; when the sync fails, the data is in the
  file. Both are errors of the write, as is a file that cannot be opened.
\<close>

definition write_file :: "string \<Rightarrow> content \<Rightarrow> world \<Rightarrow> error option \<times> world" where
  "write_file path c w =
     (if path \<noteq> [] \<and> Dir path \<in> set (dirs (fsys w)) \<and> path \<notin> set (dirs (fsys w))
         \<and> map_of (faults (fsys w)) path \<noteq> Some OpenFault
      then (case map_of (faults (fsys w)) path of
              Some WriteFault \<Rightarrow>
                (Some PersistError,
                 w\<lparr>fsys := (fsys w)\<lparr>files := put path Empty (files (fsys w))\<rparr>\<rparr>)
            | Some SyncFault \<Rightarrow>
                (Some PersistError,
                 w\<lparr>fsys := (fsys w)\<lparr>files := put path c (files (fsys w))\<rparr>\<rparr>)
            | _ \<Rightarrow>
                (None, w\<lparr>fsys := (fsys w)\<lparr>files := put path c (files (fsys w))\<rparr>,
                         trace := trace w @ [FileWritten path]\<rparr>))
      else (Some PersistError, w))"

section \<open>The key/value binder (viper)\<close>

definition viper_SetConfigFile :: "string \<Rightarrow> world \<Rightarrow> world" where
  "viper_SetConfigFile path w =
     (if path \<noteq> [] then w\<lparr>vp := (vp w)\<lparr>v_configFile := path\<rparr>\<rparr> else w)"

definition viper_SetConfigType :: "string \<Rightarrow> world \<Rightarrow> world" where
  "viper_SetConfigType t w =
     (if t \<noteq> [] then w\<lparr>vp := (vp w)\<lparr>v_configType := t\<rparr>\<rparr> else w)"

definition viper_SetEnvPrefix :: "string \<Rightarrow> world \<Rightarrow> world" where
  "viper_SetEnvPrefix pre w =
     (if pre \<noteq> [] then w\<lparr>vp := (vp w)\<lparr>v_envPrefix := pre\<rparr>\<rparr> else w)"

text \<open>\<^verbatim>\<open>viper.SetEnvKeyReplacer(strings.NewReplacer(old, new))\<close> for one-byte strings.\<close>

definition viper_SetEnvKeyReplacer :: "char \<Rightarrow> char \<Rightarrow> world \<Rightarrow> world" where
  "viper_SetEnvKeyReplacer old new w = w\<lparr>vp := (vp w)\<lparr>v_envKeyReplacer := Some (old, new)\<rparr>\<rparr>"

definition viper_AutomaticEnv :: "world \<Rightarrow> world" where
  "viper_AutomaticEnv w = w\<lparr>vp := (vp w)\<lparr>v_automaticEnvApplied := True\<rparr>\<rparr>"

definition ConfigFileUsed :: "world \<Rightarrow> string" where
  "ConfigFileUsed w = v_configFile (vp w)"

text \<open>
  \<^verbatim>\<open>viper.BindPFlag(key, flags.Lookup(name))\<close>: a flag the command does not define is
  nil; binding it is an error, which \<^verbatim>\<open>InitDefaults\<close> ignores, and binds nothing.
\<close>

definition viper_BindPFlag :: "string \<Rightarrow> string \<Rightarrow> world \<Rightarrow> world" where
  "viper_BindPFlag key name w =
     (case map_of (flagset w) name of
        None \<Rightarrow> w
      | Some f \<Rightarrow> w\<lparr>vp := (vp w)\<lparr>v_pflags := put key name (v_pflags (vp w))\<rparr>\<rparr>)"

definition viper_Set :: "string \<Rightarrow> val \<Rightarrow> world \<Rightarrow> world" where
  "viper_Set key x w = w\<lparr>vp := (vp w)\<lparr>v_override := put key x (v_override (vp w))\<rparr>\<rparr>"

text \<open>\<^verbatim>\<open>strings.ToUpper\<close> on the ASCII letters.\<close>

definition ToUpper :: "string \<Rightarrow> string" where
  "ToUpper = map (\<lambda>c. case map_of (zip ''abcdefghijklmnopqrstuvwxyz''
                                      ''ABCDEFGHIJKLMNOPQRSTUVWXYZ'') c of
                        Some u \<Rightarrow> u
                      | None \<Rightarrow> c)"

definition mergeWithEnvPrefix :: "viper \<Rightarrow> string \<Rightarrow> string" where
  "mergeWithEnvPrefix v key =
     (if v_envPrefix v \<noteq> [] then ToUpper (v_envPrefix v @ ''_'' @ key) else ToUpper key)"

text \<open>
  The binder's look-up of an environment variable: the key replacer is applied to the
  name, and a variable that is set to the empty string counts as not set.
\<close>

definition getEnv :: "viper \<Rightarrow> (string \<times> string) list \<Rightarrow> string \<Rightarrow> string option" where
  "getEnv v env name =
     (let name' = (case v_envKeyReplacer v of
                     None \<Rightarrow> name
                   | Some (old, new) \<Rightarrow> map (\<lambda>c. if c = old then new else c) name)
      in case map_of env name' of
           None \<Rightarrow> None
         | Some s \<Rightarrow> if s \<noteq> [] then Some s else None)"

definition bound_flag :: "world \<Rightarrow> string \<Rightarrow> flag option" where
  "bound_flag w key =
     (case map_of (v_pflags (vp w)) key of
        None \<Rightarrow> None
      | Some name \<Rightarrow> map_of (flagset w) name)"

text \<open>
  The keys above a key: \<open>parents ''a.b.c''\<close> is \<open>[''a'', ''a.b'']\<close>. A value (not a
  section) at one of them shadows the key: what lies under a plain value cannot exist.
  \<^verbatim>\<open>isPathShadowedInAutoEnv\<close> tells whether the environment has such a value, a
  variable named after a key above that is set and not empty, and
  \<^verbatim>\<open>isPathShadowedInDeepMap\<close> whether a tree of settings has one.
\<close>

definition parents :: "string \<Rightarrow> string list" where
  "parents key =
     (let path = Split key (CHR ''.'')
      in map (\<lambda>i. strings_Join (take i path) ''.'') [1..<length path])"

definition isPathShadowedInAutoEnv :: "world \<Rightarrow> string \<Rightarrow> bool" where
  "isPathShadowedInAutoEnv w key =
     list_ex (\<lambda>parentKey. getEnv (vp w) (environ w) (mergeWithEnvPrefix (vp w) parentKey) \<noteq> None)
       (parents key)"

definition isPathShadowedInDeepMap :: "(string \<times> val) list \<Rightarrow> string \<Rightarrow> bool" where
  "isPathShadowedInDeepMap m key = list_ex (\<lambda>parentKey. map_of m parentKey \<noteq> None) (parents key)"

text \<open>
  \<^verbatim>\<open>viper.Get\<close>: the binder's search (\<^verbatim>\<open>find\<close>). A value stored with \<^verbatim>\<open>viper.Set\<close>
  comes first, then a bound flag the command line has changed, then the environment
  (once \<^verbatim>\<open>AutomaticEnv\<close> is on), then the configuration file, and last the value of a
  bound flag the command line has not changed, which is its default. After the
  environment and after the file the search ends without a value when the key is
  shadowed there: a variable named after the section of the key hides the value of the
  file and the default of the flag, and so does a plain value the file holds at the
  section.
\<close>

definition viper_Get :: "world \<Rightarrow> string \<Rightarrow> val option" where
  "viper_Get w key =
     (case map_of (v_override (vp w)) key of
        Some x \<Rightarrow> Some x
      | None \<Rightarrow>
     (case (case bound_flag w key of
              Some f \<Rightarrow> if Changed f then Some (Value f) else None
            | None \<Rightarrow> None) of
        Some x \<Rightarrow> Some x
      | None \<Rightarrow>
     (case (if v_automaticEnvApplied (vp w)
            then getEnv (vp w) (environ w) (mergeWithEnvPrefix (vp w) key)
            else None) of
        Some s \<Rightarrow> Some (VStr s)
      | None \<Rightarrow>
     (if v_automaticEnvApplied (vp w) \<and> isPathShadowedInAutoEnv w key then None
      else
     (case map_of (v_config (vp w)) key of
        Some x \<Rightarrow> Some x
      | None \<Rightarrow>
     (if isPathShadowedInDeepMap (v_config (vp w)) key then None
      else
     (case bound_flag w key of
        Some f \<Rightarrow> Some (Value f)
      | None \<Rightarrow> None)))))))"

definition viper_GetString :: "world \<Rightarrow> string \<Rightarrow> string" where
  "viper_GetString w key =
     (case viper_Get w key of
        None \<Rightarrow> []
      | Some (VStr s) \<Rightarrow> s
      | Some x \<Rightarrow> cast_string (lib w) x)"

definition viper_GetDuration :: "world \<Rightarrow> string \<Rightarrow> int" where
  "viper_GetDuration w key =
     (case viper_Get w key of
        None \<Rightarrow> 0
      | Some (VInt d) \<Rightarrow> d
      | Some x \<Rightarrow> cast_duration (lib w) x)"

text \<open>
  \<^verbatim>\<open>viper.AllKeys\<close> and \<^verbatim>\<open>viper.AllSettings\<close>: the keys the binder knows from
  \<^verbatim>\<open>Set\<close>, from a bound flag or from the file, each with the value \<^verbatim>\<open>Get\<close> finds.
  A variable of the environment alone does not make its key known.
\<close>

definition AllKeys :: "world \<Rightarrow> string list" where
  "AllKeys w =
     remdups (map fst (v_override (vp w)) @ map fst (v_pflags (vp w)) @ map fst (v_config (vp w)))"

definition AllSettings :: "world \<Rightarrow> (string \<times> val) list" where
  "AllSettings w = List.map_filter (\<lambda>k. map_option (Pair k) (viper_Get w k)) (AllKeys w)"

text \<open>
  The types of configuration file the binder supports, and the format each names:
  \<^verbatim>\<open>yml\<close> is YAML, \<^verbatim>\<open>props\<close> and \<^verbatim>\<open>prop\<close> are Java properties, \<^verbatim>\<open>env\<close> is dotenv.
\<close>

definition SupportedExts :: "string list" where
  "SupportedExts =
     [''json'', ''toml'', ''yaml'', ''yml'', ''properties'', ''props'', ''prop'', ''hcl'',
      ''dotenv'', ''env'', ''ini'']"

definition format_of :: "string \<Rightarrow> string" where
  "format_of t =
     (if t = ''yml'' then ''yaml''
      else if t = ''props'' \<or> t = ''prop'' then ''properties''
      else if t = ''env'' then ''dotenv''
      else t)"

text \<open>
  Writing the configuration file (\<^verbatim>\<open>writeConfig\<close>, as of viper 1.7). The type is the
  extension of the file name without its dot, or the type set with \<^verbatim>\<open>SetConfigType\<close>
  when the name has no extension; a type that is empty or not supported is an error,
  before the file is touched. Then the file is opened, and all settings are written to
  it in the format the type names. \<^verbatim>\<open>SafeWriteConfigAs\<close> refuses to overwrite an
  existing file.
\<close>

definition writeConfigType :: "viper \<Rightarrow> string \<Rightarrow> string" where
  "writeConfigType v filename =
     (if Ext filename \<noteq> [] then drop 1 (Ext filename) else v_configType v)"

definition writeConfig :: "string \<Rightarrow> world \<Rightarrow> error option \<times> world" where
  "writeConfig filename w =
     (if writeConfigType (vp w) filename \<in> set SupportedExts
      then write_file filename
             (Encoded (format_of (writeConfigType (vp w) filename)) (AllSettings w)) w
      else (Some PersistError, w))"

definition viper_WriteConfigAs :: "string \<Rightarrow> world \<Rightarrow> error option \<times> world" where
  "viper_WriteConfigAs filename w = writeConfig filename w"

definition viper_SafeWriteConfigAs :: "string \<Rightarrow> world \<Rightarrow> error option \<times> world" where
  "viper_SafeWriteConfigAs filename w =
     (if fs_Exists w filename then (Some PersistError, w)
      else writeConfig filename w)"

text \<open>
  Reading the configuration file (\<^verbatim>\<open>ReadInConfig\<close>). The type is the one set with
  \<^verbatim>\<open>SetConfigType\<close>, or else the extension of the file name; the content of the file
  is decoded as the format that type names. The JSON decoder, the one \<^verbatim>\<open>InitConfig\<close>
  selects in line 76, reads a JSON document. It rejects empty input, other content, and
  the documents of the other formats, which write settings in a block or line syntax;
  only a YAML document without any setting is the text \<^verbatim>\<open>{}\<close>, which is a JSON
  document without settings as well. The decoders of the other formats are a parameter.
  Without a file name nothing is found: the program adds no search path.
\<close>

definition getConfigType :: "viper \<Rightarrow> string" where
  "getConfigType v =
     (if v_configType v \<noteq> [] then v_configType v else drop 1 (Ext (v_configFile v)))"

definition readBufferConfig ::
  "library \<Rightarrow> string \<Rightarrow> content \<Rightarrow> (string \<times> val) list option" where
  "readBufferConfig L t c =
     (if t = ''json''
      then (case c of
              Encoded fmt kvs \<Rightarrow>
                if fmt = ''json'' \<or> (fmt = ''yaml'' \<and> kvs = []) then Some kvs else None
            | Empty \<Rightarrow> None
            | Other \<Rightarrow> None)
      else decode_other L t c)"

definition viper_ReadInConfig :: "world \<Rightarrow> error option \<times> world" where
  "viper_ReadInConfig w =
     (if v_configFile (vp w) = [] then (Some ConfigReadError, w)
      else if getConfigType (vp w) \<in> set SupportedExts
      then (case map_of (files (fsys w)) (v_configFile (vp w)) of
              None \<Rightarrow> (Some ConfigReadError, w)
            | Some c \<Rightarrow>
                (case readBufferConfig (lib w) (getConfigType (vp w)) c of
                   None \<Rightarrow> (Some ConfigParseError, w)
                 | Some kvs \<Rightarrow> (None, w\<lparr>vp := (vp w)\<lparr>v_config := kvs\<rparr>\<rparr>)))
      else (Some ConfigParseError, w))"

subsection \<open>Decoding the settings into the structure (viper.Unmarshal)\<close>

definition as_string :: "library \<Rightarrow> val \<Rightarrow> string option" where
  "as_string L x = (case x of VStr s \<Rightarrow> Some s | _ \<Rightarrow> weak_string L x)"

definition as_int :: "library \<Rightarrow> val \<Rightarrow> int option" where
  "as_int L x = (case x of VInt i \<Rightarrow> Some i | _ \<Rightarrow> weak_int L x)"

definition as_bool :: "library \<Rightarrow> val \<Rightarrow> bool option" where
  "as_bool L x = (case x of VBool b \<Rightarrow> Some b | _ \<Rightarrow> weak_bool L x)"

definition as_duration :: "library \<Rightarrow> val \<Rightarrow> int option" where
  "as_duration L x = (case x of VInt d \<Rightarrow> Some d | _ \<Rightarrow> weak_duration L x)"

text \<open>A field keeps its value when the settings have no value for its key.\<close>

definition field :: "(val \<Rightarrow> 'a option) \<Rightarrow> (string \<times> val) list \<Rightarrow> string \<Rightarrow> 'a \<Rightarrow> 'a option" where
  "field conv s key old = (case map_of s key of None \<Rightarrow> Some old | Some x \<Rightarrow> conv x)"

definition decode_HTTP :: "library \<Rightarrow> (string \<times> val) list \<Rightarrow> http_cfg \<Rightarrow> http_cfg option" where
  "decode_HTTP L s h = do {
     addr \<leftarrow> field (as_string L) s ''http.addr'' (HTTP_Addr h);
     tls \<leftarrow> field (as_bool L) s ''http.tls'' (HTTP_TLS h);
     Some \<lparr>HTTP_Addr = addr, HTTP_TLS = tls\<rparr> }"

definition decode_TLS :: "library \<Rightarrow> (string \<times> val) list \<Rightarrow> tls_cfg \<Rightarrow> tls_cfg option" where
  "decode_TLS L s t = do {
     cert \<leftarrow> field (as_string L) s ''tls.cert'' (TLS_Cert t);
     key \<leftarrow> field (as_string L) s ''tls.key'' (TLS_Key t);
     Some \<lparr>TLS_Cert = cert, TLS_Key = key\<rparr> }"

definition decode_Db :: "library \<Rightarrow> (string \<times> val) list \<Rightarrow> db_cfg \<Rightarrow> db_cfg option" where
  "decode_Db L s d = do {
     driver \<leftarrow> field (as_string L) s ''db.driver'' (Db_Driver d);
     host \<leftarrow> field (as_string L) s ''db.host'' (Db_Host d);
     port \<leftarrow> field (as_int L) s ''db.port'' (Db_Port d);
     user \<leftarrow> field (as_string L) s ''db.user'' (Db_User d);
     password \<leftarrow> field (as_string L) s ''db.password'' (Db_Password d);
     name \<leftarrow> field (as_string L) s ''db.name'' (Db_Name d);
     charset \<leftarrow> field (as_string L) s ''db.charset'' (Db_Charset d);
     Some \<lparr>Db_Driver = driver, Db_Host = host, Db_Port = port, Db_User = user,
           Db_Password = password, Db_Name = name, Db_Charset = charset\<rparr> }"

definition decode_Etcd :: "library \<Rightarrow> (string \<times> val) list \<Rightarrow> etcd_cfg \<Rightarrow> etcd_cfg option" where
  "decode_Etcd L s e = do {
     name \<leftarrow> field (as_string L) s ''etcd.name'' (Etcd_Name e);
     host \<leftarrow> field (as_string L) s ''etcd.host'' (Etcd_Host e);
     clientport \<leftarrow> field (as_int L) s ''etcd.clientport'' (Etcd_ClientPort e);
     peerport \<leftarrow> field (as_int L) s ''etcd.peerport'' (Etcd_PeerPort e);
     datadir \<leftarrow> field (as_string L) s ''etcd.datadir'' (Etcd_DataDir e);
     username \<leftarrow> field (as_string L) s ''etcd.username'' (Etcd_Username e);
     password \<leftarrow> field (as_string L) s ''etcd.password'' (Etcd_Password e);
     rootpassword \<leftarrow> field (as_string L) s ''etcd.rootpassword'' (Etcd_RootPassword e);
     Some \<lparr>Etcd_Name = name, Etcd_Host = host, Etcd_ClientPort = clientport,
           Etcd_PeerPort = peerport, Etcd_DataDir = datadir, Etcd_Username = username,
           Etcd_Password = password, Etcd_RootPassword = rootpassword\<rparr> }"

definition decode_Auth :: "library \<Rightarrow> (string \<times> val) list \<Rightarrow> auth_cfg \<Rightarrow> auth_cfg option" where
  "decode_Auth L s a = do {
     secret \<leftarrow> field (as_string L) s ''auth.jwtsecret'' (Auth_JWTSecret a);
     expiry \<leftarrow> field (as_duration L) s ''auth.jwtexpiry'' (Auth_JWTExpiry a);
     refresh \<leftarrow> field (as_duration L) s ''auth.jwtrefreshexpiry'' (Auth_JWTRefreshExpiry a);
     Some \<lparr>Auth_JWTSecret = secret, Auth_JWTExpiry = expiry, Auth_JWTRefreshExpiry = refresh\<rparr> }"

definition decode_Log :: "library \<Rightarrow> (string \<times> val) list \<Rightarrow> log_cfg \<Rightarrow> log_cfg option" where
  "decode_Log L s l = do {
     level \<leftarrow> field (as_string L) s ''log.level'' (Log_Level l);
     stdout \<leftarrow> field (as_bool L) s ''log.stdout'' (Log_Stdout l);
     filename \<leftarrow> field (as_string L) s ''log.filename'' (Log_Filename l);
     maxsize \<leftarrow> field (as_int L) s ''log.maxsize'' (Log_MaxSize l);
     maxbackups \<leftarrow> field (as_int L) s ''log.maxbackups'' (Log_MaxBackups l);
     maxage \<leftarrow> field (as_int L) s ''log.maxage'' (Log_MaxAge l);
     Some \<lparr>Log_Level = level, Log_Stdout = stdout, Log_Filename = filename,
           Log_MaxSize = maxsize, Log_MaxBackups = maxbackups, Log_MaxAge = maxage\<rparr> }"

text \<open>
  The sections of the structure. A plain value under the name of a section cannot be
  decoded into the section, which is a structure: that is a decoding error.
\<close>

definition sections :: "string list" where
  "sections = [''http'', ''tls'', ''db'', ''etcd'', ''auth'', ''log'']"

definition decode_config :: "library \<Rightarrow> (string \<times> val) list \<Rightarrow> config \<Rightarrow> config option" where
  "decode_config L s c =
     (if list_ex (\<lambda>name. map_of s name \<noteq> None) sections then None
      else do {
        h \<leftarrow> decode_HTTP L s (cfg_HTTP c);
        t \<leftarrow> decode_TLS L s (cfg_TLS c);
        d \<leftarrow> decode_Db L s (cfg_Db c);
        e \<leftarrow> decode_Etcd L s (cfg_Etcd c);
        a \<leftarrow> decode_Auth L s (cfg_Auth c);
        l \<leftarrow> decode_Log L s (cfg_Log c);
        Some \<lparr>cfg_HTTP = h, cfg_TLS = t, cfg_Db = d, cfg_Etcd = e, cfg_Auth = a, cfg_Log = l\<rparr> })"

text \<open>
  \<^verbatim>\<open>viper.Unmarshal(&Config)\<close>: a nil \<^verbatim>\<open>Config\<close> is allocated, and the settings are
  decoded over the structure. On a decoding error the caller ends the process.
\<close>

definition viper_Unmarshal_Config :: "world \<Rightarrow> error option \<times> world" where
  "viper_Unmarshal_Config w =
     (case decode_config (lib w) (AllSettings w)
             (case Config w of None \<Rightarrow> zero_config | Some c \<Rightarrow> c) of
        None \<Rightarrow> (Some DecodeError, w)
      | Some c \<Rightarrow> (None, w\<lparr>Config := Some c\<rparr>))"


section \<open>The server core (package core)\<close>

text \<open>\<^verbatim>\<open>if err := f(); err != nil { fatal(err) }\<close>\<close>

definition orFatal :: "(world \<Rightarrow> error option \<times> world) \<Rightarrow> unit prog" where
  "orFatal f w =
     (case f w of
        (Some err, w') \<Rightarrow> fatal err w'
      | (None, w') \<Rightarrow> (Return (), w'))"

text \<open>
  \<^verbatim>\<open>Log.Sugar().Infof(...)\<close> with the formatted message: \<^verbatim>\<open>Sugar\<close> copies the logger
  it is called on, so a nil \<^verbatim>\<open>Log\<close> is a nil pointer dereference.
\<close>

definition Log_Infof :: "string \<Rightarrow> unit prog" where
  "Log_Infof msg w =
     (case Log w of
        None \<Rightarrow> (Panic, w)
      | Some l \<Rightarrow> (Return (), w\<lparr>trace := trace w @ [LogInfo msg]\<rparr>))"

text \<open>A statement that reads fields of \<^verbatim>\<open>*Config\<close>: a nil \<^verbatim>\<open>Config\<close> panics.\<close>

definition on_Config :: "(config \<Rightarrow> world \<Rightarrow> world) \<Rightarrow> unit prog" where
  "on_Config f w =
     (case Config w of
        None \<Rightarrow> (Panic, w)
      | Some c \<Rightarrow> (Return (), f c w))"

subsection \<open>InitDefaults (lines 29-61)\<close>

text \<open>The key and the name of the flag of each \<^verbatim>\<open>viper.BindPFlag\<close> line, in order.\<close>

definition bindings :: "(string \<times> string) list" where
  "bindings =
     [(''http.addr'', ''http-addr''),
      (''http.tls'', ''http-tls''),
      (''tls.cert'', ''tls-cert''),
      (''tls.key'', ''tls-key''),
      (''db.driver'', ''db-driver''),
      (''db.host'', ''db-host''),
      (''db.port'', ''db-port''),
      (''db.user'', ''db-user''),
      (''db.password'', ''db-password''),
      (''db.name'', ''db-name''),
      (''db.charset'', ''db-charset''),
      (''etcd.name'', ''etcd-name''),
      (''etcd.host'', ''etcd-host''),
      (''etcd.clientport'', ''etcd-clientport''),
      (''etcd.peerport'', ''etcd-peerport''),
      (''etcd.datadir'', ''etcd-datadir''),
      (''etcd.username'', ''etcd-username''),
      (''etcd.password'', ''etcd-password''),
      (''etcd.rootpassword'', ''etcd-rootpassword''),
      (''auth.jwtsecret'', ''auth-jwtsecret''),
      (''auth.jwtexpiry'', ''auth-jwtexpiry''),
      (''auth.jwtrefreshexpiry'', ''auth-jwtrefreshexpiry''),
      (''log.level'', ''log-level''),
      (''log.stdout'', ''log-stdout''),
      (''log.filename'', ''log-filename''),
      (''log.maxsize'', ''log-max-size''),
      (''log.maxbackups'', ''log-max-backups''),
      (''log.maxage'', ''log-max-age'')]"

text \<open>
  The command \<^verbatim>\<open>cmd\<close> is the root command, whose persistent flags are \<open>flagset w\<close>.
\<close>

definition InitDefaults :: "string \<Rightarrow> world \<Rightarrow> world" where
  "InitDefaults cfgFile w =
     foldl (\<lambda>w (key, name). viper_BindPFlag key name w) (w\<lparr>ConfigFile := cfgFile\<rparr>) bindings"

subsection \<open>InitConfig (lines 63-122)\<close>

text \<open>Lines 67-73.\<close>

definition default_config_file :: "unit prog" where
  "default_config_file w =
     (if ConfigFile w = [] then
        (case homedir w of
           None \<Rightarrow> fatal HomeDirError w
         | Some home \<Rightarrow>
             (Return (), w\<lparr>ConfigFile := Join [home, ''abstruse'', ''abstruse-server.json'']\<rparr>))
      else (Return (), w))"

text \<open>Lines 74-79.\<close>

definition configure_viper :: "unit prog" where
  "configure_viper =
     seq [(\<lambda>w. upd (viper_SetConfigFile (ConfigFile w)) w),
          upd (viper_SetConfigType ''json''),
          upd (viper_SetEnvPrefix ''abstruse''),
          upd (viper_SetEnvKeyReplacer (CHR ''.'') (CHR ''_'')),
          upd viper_AutomaticEnv]"

text \<open>Lines 81-92: the first run, when the configuration file does not exist yet.\<close>

definition write_default_config :: "unit prog" where
  "write_default_config w =
     (if \<not> fs_Exists w (ConfigFileUsed w) then
        seq [(\<lambda>w. if \<not> fs_Exists w (Dir (ConfigFile w))
                   then orFatal (fs_MakeDir (Dir (ConfigFile w))) w
                   else (Return (), w)),
             (\<lambda>w. orFatal (viper_SafeWriteConfigAs (ConfigFileUsed w)) w),
             (\<lambda>w. Log_Infof (''config file save to '' @ ConfigFileUsed w) w)] w
      else (Return (), w))"

text \<open>Lines 102-116, one statement per path-bearing field.\<close>

definition normalize_paths :: "unit prog" where
  "normalize_paths =
     seq [on_Config (\<lambda>c w.
            if \<not> HasPrefix (Etcd_DataDir (cfg_Etcd c)) ''/''
            then w\<lparr>Config := Some (c\<lparr>cfg_Etcd := (cfg_Etcd c)\<lparr>Etcd_DataDir :=
                        Join [Dir (ConfigFileUsed w), Etcd_DataDir (cfg_Etcd c)]\<rparr>\<rparr>)\<rparr>
            else w),
          on_Config (\<lambda>c w.
            if \<not> HasPrefix (Log_Filename (cfg_Log c)) ''/''
            then w\<lparr>Config := Some (c\<lparr>cfg_Log := (cfg_Log c)\<lparr>Log_Filename :=
                        Join [Dir (ConfigFileUsed w), Log_Filename (cfg_Log c)]\<rparr>\<rparr>)\<rparr>
            else w),
          on_Config (\<lambda>c w.
            if \<not> HasPrefix (TLS_Cert (cfg_TLS c)) ''/''
            then w\<lparr>Config := Some (c\<lparr>cfg_TLS := (cfg_TLS c)\<lparr>TLS_Cert :=
                        Join [Dir (ConfigFileUsed w), TLS_Cert (cfg_TLS c)]\<rparr>\<rparr>)\<rparr>
            else w),
          on_Config (\<lambda>c w.
            if \<not> HasPrefix (TLS_Key (cfg_TLS c)) ''/''
            then w\<lparr>Config := Some (c\<lparr>cfg_TLS := (cfg_TLS c)\<lparr>TLS_Key :=
                        Join [Dir (ConfigFileUsed w), TLS_Key (cfg_TLS c)]\<rparr>\<rparr>)\<rparr>
            else w)]"

text \<open>
  Modelled from the spec: \<^verbatim>\<open>logger.NewLogger\<close> is not among the sources; it builds
  the logger of a log section, or fails (the parameter \<open>new_logger_ok\<close> tells which)
  and returns a nil logger with its error. Lines 118-121 assign what it returns to
  \<^verbatim>\<open>Log\<close> and end the process on an error.
\<close>

definition assign_logger :: "unit prog" where
  "assign_logger w =
     (case Config w of
        None \<Rightarrow> (Panic, w)
      | Some c \<Rightarrow>
          if new_logger_ok (lib w) (cfg_Log c)
          then (Return (), w\<lparr>Log := Some (Logger (cfg_Log c))\<rparr>)
          else fatal LoggerError (w\<lparr>Log := None\<rparr>))"

definition InitConfig :: "unit prog" where
  "InitConfig =
     seq [default_config_file,
          configure_viper,
          write_default_config,
          orFatal viper_ReadInConfig,
          orFatal viper_Unmarshal_Config,
          normalize_paths,
          assign_logger]"

subsection \<open>InitTLS (lines 124-141)\<close>

text \<open>Lines 126-132: the certificate and key paths \<^verbatim>\<open>InitTLS\<close> works with.\<close>

definition InitTLS_paths :: "config \<Rightarrow> world \<Rightarrow> string \<times> string" where
  "InitTLS_paths c w =
     (let cert = TLS_Cert (cfg_TLS c);
          key = TLS_Key (cfg_TLS c);
          cert = (if \<not> HasPrefix cert ''/'' then Join [Dir (ConfigFileUsed w), cert] else cert);
          key = (if \<not> HasPrefix key ''/'' then Join [Dir (ConfigFileUsed w), key] else key)
      in (cert, key))"

text \<open>
  Modelled from the spec: \<^verbatim>\<open>tlsutil.CheckAndGenerateCert\<close> is not among the sources.
  It checks whether a certificate and a private key exist at the paths; if either is
  missing, it generates a pair at those paths, and fails when it cannot write them.
\<close>

definition CheckAndGenerateCert :: "string \<Rightarrow> string \<Rightarrow> world \<Rightarrow> error option \<times> world" where
  "CheckAndGenerateCert cert key w =
     (if fs_Exists w cert \<and> fs_Exists w key then (None, w)
      else (case write_file cert Other w of
              (Some err, w') \<Rightarrow> (Some TLSGenerationError, w')
            | (None, w') \<Rightarrow>
                (case write_file key Other w' of
                   (Some err, w'') \<Rightarrow> (Some TLSGenerationError, w'')
                 | (None, w'') \<Rightarrow> (None, w''))))"

definition InitTLS :: "unit prog" where
  "InitTLS w =
     (case Config w of
        None \<Rightarrow> (Panic, w)
      | Some c \<Rightarrow>
          (case InitTLS_paths c w of (cert, key) \<Rightarrow>
             seq [(\<lambda>w. if \<not> fs_Exists w cert \<or> \<not> fs_Exists w key
                        then Log_Infof (''generating SSL cert '' @ cert @ '' and key '' @ key) w
                        else (Return (), w)),
                  orFatal (CheckAndGenerateCert cert key)] w))"

subsection \<open>InitDB (lines 143-146) and InitAuthentication (lines 148-153)\<close>

text \<open>
  Modelled from the spec: \<^verbatim>\<open>db.Connect\<close> is not among the sources.
  \<^verbatim>\<open>db.Connect(cfg, log)\<close> establishes the database connection, which becomes
  process-wide state, or fails with \<^verbatim>\<open>DatabaseConnectError\<close>. The call returns
  nothing that \<^verbatim>\<open>InitDB\<close> could pass on (line 145), and the failure of this stage is
  fatal (sections 4.3 and 7 of the specification): the process reports the error and
  ends. Whether the connection can be established is the parameter \<open>db_reachable\<close>.
\<close>

definition db_Connect :: "db_cfg \<Rightarrow> logger option \<Rightarrow> unit prog" where
  "db_Connect d l w =
     (if db_reachable (lib w) d
      then (Return (), w\<lparr>db_conn := Some (d, l), trace := trace w @ [DbConnect d]\<rparr>)
      else fatal DatabaseConnectError w)"

text \<open>
  Modelled from the spec: \<^verbatim>\<open>auth.Init\<close> derives the process-wide authentication state
  (signing secret, access and refresh token lifetimes) from its three arguments.
\<close>

definition auth_Init :: "string \<Rightarrow> int \<Rightarrow> int \<Rightarrow> world \<Rightarrow> world" where
  "auth_Init secret expiry refreshExpiry w =
     w\<lparr>auth_state := Some (secret, expiry, refreshExpiry),
       trace := trace w @ [AuthInit secret expiry refreshExpiry]\<rparr>"

definition InitDB :: "unit prog" where
  "InitDB w =
     (case Config w of
        None \<Rightarrow> (Panic, w)
      | Some c \<Rightarrow> db_Connect (cfg_Db c) (Log w) w)"

definition InitAuthentication :: "unit prog" where
  "InitAuthentication w =
     (let secret = viper_GetString w ''auth.jwtsecret'';
          expiry = viper_GetDuration w ''auth.jwtexpiry'';
          refreshExpiry = viper_GetDuration w ''auth.jwtrefreshexpiry''
      in upd (auth_Init secret expiry refreshExpiry) w)"

subsection \<open>SaveConfig (lines 155-193)\<close>

text \<open>The key and the field of each \<^verbatim>\<open>viper.Set\<close> line (159-186), in order.\<close>

definition settings :: "(string \<times> (config \<Rightarrow> val)) list" where
  "settings =
     [(''http.addr'', \<lambda>c. VStr (HTTP_Addr (cfg_HTTP c))),
      (''http.tls'', \<lambda>c. VBool (HTTP_TLS (cfg_HTTP c))),
      (''tls.cert'', \<lambda>c. VStr (TLS_Cert (cfg_TLS c))),
      (''tls.key'', \<lambda>c. VStr (TLS_Key (cfg_TLS c))),
      (''db.driver'', \<lambda>c. VStr (Db_Driver (cfg_Db c))),
      (''db.host'', \<lambda>c. VStr (Db_Host (cfg_Db c))),
      (''db.port'', \<lambda>c. VInt (Db_Port (cfg_Db c))),
      (''db.user'', \<lambda>c. VStr (Db_User (cfg_Db c))),
      (''db.password'', \<lambda>c. VStr (Db_Password (cfg_Db c))),
      (''db.name'', \<lambda>c. VStr (Db_Name (cfg_Db c))),
      (''db.charset'', \<lambda>c. VStr (Db_Charset (cfg_Db c))),
      (''etcd.name'', \<lambda>c. VStr (Etcd_Name (cfg_Etcd c))),
      (''etcd.host'', \<lambda>c. VStr (Etcd_Host (cfg_Etcd c))),
      (''etcd.clientport'', \<lambda>c. VInt (Etcd_ClientPort (cfg_Etcd c))),
      (''etcd.peerport'', \<lambda>c. VInt (Etcd_PeerPort (cfg_Etcd c))),
      (''etcd.datadir'', \<lambda>c. VStr (Etcd_DataDir (cfg_Etcd c))),
      (''etcd.username'', \<lambda>c. VStr (Etcd_Username (cfg_Etcd c))),
      (''etcd.password'', \<lambda>c. VStr (Etcd_Password (cfg_Etcd c))),
      (''etcd.rootpassword'', \<lambda>c. VStr (Etcd_RootPassword (cfg_Etcd c))),
      (''auth.jwtsecret'', \<lambda>c. VStr (Auth_JWTSecret (cfg_Auth c))),
      (''auth.jwtexpiry'', \<lambda>c. VInt (Auth_JWTExpiry (cfg_Auth c))),
      (''auth.jwtrefreshexpiry'', \<lambda>c. VInt (Auth_JWTRefreshExpiry (cfg_Auth c))),
      (''log.level'', \<lambda>c. VStr (Log_Level (cfg_Log c))),
      (''log.stdout'', \<lambda>c. VBool (Log_Stdout (cfg_Log c))),
      (''log.filename'', \<lambda>c. VStr (Log_Filename (cfg_Log c))),
      (''log.maxsize'', \<lambda>c. VInt (Log_MaxSize (cfg_Log c))),
      (''log.maxbackups'', \<lambda>c. VInt (Log_MaxBackups (cfg_Log c))),
      (''log.maxage'', \<lambda>c. VInt (Log_MaxAge (cfg_Log c)))]"

text \<open>\<^verbatim>\<open>viper.Set(key, Config.Section.Field)\<close>\<close>

definition Set_from_Config :: "string \<times> (config \<Rightarrow> val) \<Rightarrow> unit prog" where
  "Set_from_Config kf = on_Config (\<lambda>c. viper_Set (fst kf) (snd kf c))"

definition SaveConfig :: "config option \<Rightarrow> error option prog" where
  "SaveConfig cfg =
     andThen
       (seq ([upd (\<lambda>w. w\<lparr>Config := cfg\<rparr>)]
             @ map Set_from_Config settings
             @ [InitAuthentication,
                InitDB,
                (\<lambda>w. Log_Infof (''saving config file to '' @ ConfigFileUsed w) w)]))
       (\<lambda>_ w. case viper_WriteConfigAs (ConfigFileUsed w) w of (err, w') \<Rightarrow> (Return err, w'))"

section \<open>The master application's configuration file (package master/app)\<close>

text \<open>
  A JSON value as \<^verbatim>\<open>encoding/json\<close> reads it; a number is kept as its text. The
  content of a file is either the text of one JSON value, given by that value, or text
  that is not valid JSON.
\<close>

datatype json =
    JNull
  | JBool bool
  | JNumber string
  | JString string
  | JArray "json list"
  | JObject "(string \<times> json) list"

datatype document = JSON json | Garbage

text \<open>
  Lines 12-19. The declarations of \<^verbatim>\<open>etcdserver.Config\<close> and \<^verbatim>\<open>rpc.Config\<close> are not
  among the sources: the two types are parameters \<open>'e\<close> and \<open>'g\<close>.
\<close>

record ('e, 'g) app_Config =
  Cert :: string
  Key :: string
  Etcd :: 'e
  GRPC :: 'g
  LogLevel :: string

text \<open>
  What the model needs to know of the two nested types: their zero values, and how
  \<^verbatim>\<open>json.Unmarshal\<close> decodes a JSON value over a value of the type. The decoder returns
  the new value and whether it met a value that does not fit (a type error).
\<close>

record ('e, 'g) nested =
  zero_Etcd :: 'e
  zero_GRPC :: 'g
  unmarshal_Etcd :: "json \<Rightarrow> 'e \<Rightarrow> 'e \<times> bool"
  unmarshal_GRPC :: "json \<Rightarrow> 'g \<Rightarrow> 'g \<times> bool"

text \<open>\<^verbatim>\<open>var config Config\<close>: the zero value.\<close>

definition zero_app_Config :: "('e, 'g) nested \<Rightarrow> ('e, 'g) app_Config" where
  "zero_app_Config N =
     \<lparr>Cert = [], Key = [], Etcd = zero_Etcd N, GRPC = zero_GRPC N, LogLevel = []\<rparr>"

datatype app_error = ErrorReading | ErrorParsing

text \<open>
  \<^verbatim>\<open>ioutil.ReadFile\<close> on a disk that maps the paths of its readable files to their
  contents: \<open>None\<close> is the error of a path that cannot be read.
\<close>

definition ioutil_ReadFile :: "(string \<times> document) list \<Rightarrow> string \<Rightarrow> document option" where
  "ioutil_ReadFile disk path = map_of disk path"

text \<open>
  Decoding into a string field: a JSON string is stored, \<^verbatim>\<open>null\<close> changes nothing,
  and any other value is a type error that leaves the field as it is.
\<close>

fun unmarshal_string :: "json \<Rightarrow> string \<Rightarrow> string \<times> bool" where
  "unmarshal_string (JString s) old = (s, False)"
| "unmarshal_string JNull old = (old, False)"
| "unmarshal_string j old = (old, True)"

text \<open>
  The fields by their \<^verbatim>\<open>json\<close> tags. A key of the document names the field whose tag
  it equals, or else the first field whose tag it equals up to the case of ASCII letters
  (where \<^verbatim>\<open>k\<close> also matches the Kelvin sign and \<^verbatim>\<open>s\<close> the long s, as UTF-8).
\<close>

datatype app_field = FCert | FKey | FEtcd | FGRPC | FLogLevel

definition app_fields :: "(string \<times> app_field) list" where
  "app_fields =
     [(''cert'', FCert), (''key'', FKey), (''etcd'', FEtcd), (''grpc'', FGRPC),
      (''log_level'', FLogLevel)]"

definition is_lower :: "char \<Rightarrow> bool" where
  "is_lower c = (c \<in> set ''abcdefghijklmnopqrstuvwxyz'')"

fun equalFold :: "string \<Rightarrow> string \<Rightarrow> bool" where
  "equalFold [] t = (t = [])"
| "equalFold (sb # s) [] = False"
| "equalFold (sb # s) (tb # t) =
     (if tb = sb \<or> (is_lower sb \<and> [tb] = ToUpper [sb]) then equalFold s t
      else if sb = CHR ''k'' \<and> take 3 (tb # t) = [CHR 0xE2, CHR 0x84, CHR 0xAA]
        then equalFold s (drop 2 t)
      else if sb = CHR ''s'' \<and> take 2 (tb # t) = [CHR 0xC5, CHR 0xBF]
        then equalFold s (drop 1 t)
      else False)"

definition find_field :: "string \<Rightarrow> app_field option" where
  "find_field key =
     (case map_of app_fields key of
        Some f \<Rightarrow> Some f
      | None \<Rightarrow>
          (case filter (\<lambda>nf. equalFold (fst nf) key) app_fields of
             [] \<Rightarrow> None
           | nf # _ \<Rightarrow> Some (snd nf)))"

text \<open>
  One key/value pair of a JSON object decoded into the structure. The flag says whether
  a type error has been met so far; decoding goes on after one, and a key that names no
  field is skipped.
\<close>

definition unmarshal_pair ::
  "('e, 'g) nested \<Rightarrow> ('e, 'g) app_Config \<times> bool \<Rightarrow> string \<times> json \<Rightarrow> ('e, 'g) app_Config \<times> bool" where
  "unmarshal_pair N acc kv =
     (case acc of (c, err) \<Rightarrow>
        (case find_field (fst kv) of
           None \<Rightarrow> (c, err)
         | Some FCert \<Rightarrow>
             (case unmarshal_string (snd kv) (Cert c) of (x, e) \<Rightarrow> (c\<lparr>Cert := x\<rparr>, err \<or> e))
         | Some FKey \<Rightarrow>
             (case unmarshal_string (snd kv) (Key c) of (x, e) \<Rightarrow> (c\<lparr>Key := x\<rparr>, err \<or> e))
         | Some FEtcd \<Rightarrow>
             (case unmarshal_Etcd N (snd kv) (Etcd c) of (x, e) \<Rightarrow> (c\<lparr>Etcd := x\<rparr>, err \<or> e))
         | Some FGRPC \<Rightarrow>
             (case unmarshal_GRPC N (snd kv) (GRPC c) of (x, e) \<Rightarrow> (c\<lparr>GRPC := x\<rparr>, err \<or> e))
         | Some FLogLevel \<Rightarrow>
             (case unmarshal_string (snd kv) (LogLevel c) of
                (x, e) \<Rightarrow> (c\<lparr>LogLevel := x\<rparr>, err \<or> e))))"

text \<open>
  \<^verbatim>\<open>json.Unmarshal(file, &config)\<close>: the structure after the call, and whether the call
  returns an error. Text that is not valid JSON is rejected before anything is decoded.
  Of the valid documents, \<^verbatim>\<open>null\<close> changes nothing, an object is decoded pair by pair,
  and any other value is a type error.
\<close>

definition json_Unmarshal ::
  "('e, 'g) nested \<Rightarrow> document \<Rightarrow> ('e, 'g) app_Config \<Rightarrow> ('e, 'g) app_Config \<times> bool" where
  "json_Unmarshal N doc c =
     (case doc of
        Garbage \<Rightarrow> (c, True)
      | JSON JNull \<Rightarrow> (c, False)
      | JSON (JObject kvs) \<Rightarrow> foldl (unmarshal_pair N) (c, False) kvs
      | JSON j \<Rightarrow> (c, True))"

text \<open>Lines 21-34.\<close>

definition ReadAndParseConfig ::
  "('e, 'g) nested \<Rightarrow> (string \<times> document) list \<Rightarrow> string
     \<Rightarrow> ('e, 'g) app_Config \<times> app_error option" where
  "ReadAndParseConfig N disk configPath =
     (let config = zero_app_Config N
      in case ioutil_ReadFile disk configPath of
           None \<Rightarrow> (config, Some ErrorReading)
         | Some file \<Rightarrow>
             (case json_Unmarshal N file config of
                (config, err) \<Rightarrow>
                  if err then (config, Some ErrorParsing)
                  else (config, None)))"

section \<open>Auxiliary notions\<close>

text \<open>Statements that leave the variable \<^verbatim>\<open>Config\<close> alone, however they end.\<close>

definition keeps_Config :: "'a prog \<Rightarrow> bool" where
  "keeps_Config m = (\<forall>w. Config (snd (m w)) = Config w)"

text \<open>Everything \<^verbatim>\<open>SaveConfig\<close> does after its first line.\<close>

definition SaveConfig_rest :: "error option prog" where
  "SaveConfig_rest =
     andThen
       (seq (map Set_from_Config settings
             @ [InitAuthentication,
                InitDB,
                (\<lambda>w. Log_Infof (''saving config file to '' @ ConfigFileUsed w) w)]))
       (\<lambda>_ w. case viper_WriteConfigAs (ConfigFileUsed w) w of (err, w') \<Rightarrow> (Return err, w'))"

text \<open>The world after the \<^verbatim>\<open>viper.Set\<close> lines of \<^verbatim>\<open>SaveConfig\<close> (159-186) on a configuration.\<close>

definition apply_settings :: "config \<Rightarrow> world \<Rightarrow> world" where
  "apply_settings c w = foldl (\<lambda>w kf. viper_Set (fst kf) (snd kf c) w) w settings"

text \<open>
  The world in which \<^verbatim>\<open>SaveConfig\<close> attempts its final write (line 192): the new
  configuration is active and stored in the binder, authentication and database have
  been re-initialised from it, and the message of line 191 is logged.
\<close>

definition pre_write :: "config \<Rightarrow> world \<Rightarrow> world" where
  "pre_write c w =
     (apply_settings c (w\<lparr>Config := Some c\<rparr>))
       \<lparr>auth_state := Some (Auth_JWTSecret (cfg_Auth c), Auth_JWTExpiry (cfg_Auth c),
                             Auth_JWTRefreshExpiry (cfg_Auth c)),
        db_conn := Some (cfg_Db c, Log w),
        trace := trace w @
          [AuthInit (Auth_JWTSecret (cfg_Auth c)) (Auth_JWTExpiry (cfg_Auth c))
             (Auth_JWTRefreshExpiry (cfg_Auth c)),
           DbConnect (cfg_Db c),
           LogInfo (''saving config file to '' @ ConfigFileUsed w)]\<rparr>"

text \<open>
  Order in a trace: some event that satisfies \<open>P\<close> stands before some event that
  satisfies \<open>Q\<close>. A write to disk, and a re-initialisation of a subsystem.
\<close>

fun happens_before :: "('a \<Rightarrow> bool) \<Rightarrow> ('a \<Rightarrow> bool) \<Rightarrow> 'a list \<Rightarrow> bool" where
  "happens_before P Q [] = False"
| "happens_before P Q (x # xs) = ((P x \<and> list_ex Q xs) \<or> happens_before P Q xs)"

fun is_write :: "event \<Rightarrow> bool" where
  "is_write (FileWritten path) = True"
| "is_write e = False"

fun is_reinit :: "event \<Rightarrow> bool" where
  "is_reinit (AuthInit secret expiry refreshExpiry) = True"
| "is_reinit (DbConnect d) = True"
| "is_reinit e = False"

text \<open>
  A configuration with its four path-bearing fields resolved against a directory: what
  lines 102-116 of \<^verbatim>\<open>InitConfig\<close> make of the decoded configuration.
\<close>

definition normalized :: "string \<Rightarrow> config \<Rightarrow> config" where
  "normalized d c =
     c\<lparr>cfg_Etcd := (cfg_Etcd c)\<lparr>Etcd_DataDir := Resolve d (Etcd_DataDir (cfg_Etcd c))\<rparr>,
       cfg_Log := (cfg_Log c)\<lparr>Log_Filename := Resolve d (Log_Filename (cfg_Log c))\<rparr>,
       cfg_TLS := \<lparr>TLS_Cert = Resolve d (TLS_Cert (cfg_TLS c)),
                   TLS_Key = Resolve d (TLS_Key (cfg_TLS c))\<rparr>\<rparr>"







text \<open>
  What is on disk at a path: the format of the document the file holds, and the value
  that document gives a key.
\<close>

definition file_format :: "world \<Rightarrow> string \<Rightarrow> string option" where
  "file_format w path =
     (case map_of (files (fsys w)) path of
        Some (Encoded fmt kvs) \<Rightarrow> Some fmt
      | _ \<Rightarrow> None)"




section \<open>Sample worlds\<close>

text \<open>
  A library that decodes a text of decimal digits into the number it writes. Its other
  conversions between kinds of values, which the sample runs do not use, fail (or give
  the zero value), and it decodes no format other than JSON. Its logger factory accepts
  every log section, and every database can be reached.
\<close>

fun decimal :: "int \<Rightarrow> string \<Rightarrow> int option" where
  "decimal n [] = Some n"
| "decimal n (c # cs) =
     (case map_of (zip ''0123456789'' [0, 1, 2, 3, 4, 5, 6, 7, 8, 9]) c of
        None \<Rightarrow> None
      | Some d \<Rightarrow> decimal (10 * n + d) cs)"

definition lib0 :: library where
  "lib0 = \<lparr>weak_string = (\<lambda>_. None),
           weak_int = (\<lambda>x. case x of VStr s \<Rightarrow> if s = [] then None else decimal 0 s
                                     | _ \<Rightarrow> None),
           weak_bool = (\<lambda>_. None),
           weak_duration = (\<lambda>_. None), cast_string = (\<lambda>_. []), cast_duration = (\<lambda>_. 0),
           new_logger_ok = (\<lambda>_. True), db_reachable = (\<lambda>_. True),
           decode_other = (\<lambda>_ _. None)\<rparr>"

text \<open>The persistent flags of the root command, none of them given on the command line.\<close>

definition cmd_flags :: "(string \<times> flag) list" where
  "cmd_flags =
     [(''http-addr'', \<lparr>Value = VStr ''0.0.0.0:80'', Changed = False\<rparr>),
      (''http-tls'', \<lparr>Value = VBool False, Changed = False\<rparr>),
      (''tls-cert'', \<lparr>Value = VStr ''certs/cert.pem'', Changed = False\<rparr>),
      (''tls-key'', \<lparr>Value = VStr ''certs/key.pem'', Changed = False\<rparr>),
      (''db-driver'', \<lparr>Value = VStr ''mysql'', Changed = False\<rparr>),
      (''db-host'', \<lparr>Value = VStr ''127.0.0.1'', Changed = False\<rparr>),
      (''db-port'', \<lparr>Value = VInt 3306, Changed = False\<rparr>),
      (''db-user'', \<lparr>Value = VStr ''root'', Changed = False\<rparr>),
      (''db-password'', \<lparr>Value = VStr [], Changed = False\<rparr>),
      (''db-name'', \<lparr>Value = VStr ''abstruse'', Changed = False\<rparr>),
      (''db-charset'', \<lparr>Value = VStr ''utf8'', Changed = False\<rparr>),
      (''etcd-name'', \<lparr>Value = VStr ''abstruse'', Changed = False\<rparr>),
      (''etcd-host'', \<lparr>Value = VStr ''0.0.0.0'', Changed = False\<rparr>),
      (''etcd-clientport'', \<lparr>Value = VInt 2379, Changed = False\<rparr>),
      (''etcd-peerport'', \<lparr>Value = VInt 2380, Changed = False\<rparr>),
      (''etcd-datadir'', \<lparr>Value = VStr ''etcd-data'', Changed = False\<rparr>),
      (''etcd-username'', \<lparr>Value = VStr ''abstruse'', Changed = False\<rparr>),
      (''etcd-password'', \<lparr>Value = VStr ''abstruse'', Changed = False\<rparr>),
      (''etcd-rootpassword'', \<lparr>Value = VStr ''abstruse'', Changed = False\<rparr>),
      (''auth-jwtsecret'', \<lparr>Value = VStr ''old-secret'', Changed = False\<rparr>),
      (''auth-jwtexpiry'', \<lparr>Value = VInt 900, Changed = False\<rparr>),
      (''auth-jwtrefreshexpiry'', \<lparr>Value = VInt 3600, Changed = False\<rparr>),
      (''log-level'', \<lparr>Value = VStr ''info'', Changed = False\<rparr>),
      (''log-stdout'', \<lparr>Value = VBool True, Changed = False\<rparr>),
      (''log-filename'', \<lparr>Value = VStr ''abstruse-server.log'', Changed = False\<rparr>),
      (''log-max-size'', \<lparr>Value = VInt 500, Changed = False\<rparr>),
      (''log-max-backups'', \<lparr>Value = VInt 3, Changed = False\<rparr>),
      (''log-max-age'', \<lparr>Value = VInt 3, Changed = False\<rparr>)]"

text \<open>The binder before any call.\<close>

definition viper0 :: viper where
  "viper0 = \<lparr>v_configFile = [], v_configType = [], v_envPrefix = [], v_envKeyReplacer = None,
     v_automaticEnvApplied = False, v_override = [], v_pflags = [], v_config = []\<rparr>"

text \<open>
  A process that has just started in a fresh environment: every package-level variable
  has its zero value, and there is no directory \<^verbatim>\<open>/home/ci/abstruse\<close> yet.
\<close>

definition startup :: world where
  "startup = \<lparr>ConfigFile = [], Config = None, Log = None, vp = viper0, flagset = cmd_flags,
     environ = [], homedir = Some ''/home/ci'',
     fsys = \<lparr>files = [], dirs = [''/'', ''/home'', ''/home/ci''], faults = []\<rparr>,
     auth_state = None, db_conn = None, trace = [], lib = lib0\<rparr>"

text \<open>
  A process that has just started where a configuration file is installed. The file
  sets the database host and the certificate path, and so does the environment, which
  sets the database port as well.
\<close>

definition installed :: world where
  "installed = startup
     \<lparr>environ := [(''ABSTRUSE_DB_HOST'', ''remote''), (''ABSTRUSE_DB_PORT'', ''3307''),
                  (''ABSTRUSE_TLS_CERT'', ''/etc/ssl/env.pem'')],
      fsys := \<lparr>files = [(''/home/ci/abstruse/abstruse-server.json'',
                          Encoded ''json'' [(''db.host'', VStr ''localhost''),
                                           (''tls.cert'', VStr ''/etc/ssl/file.pem'')])],
               dirs = [''/'', ''/home'', ''/home/ci'', ''/home/ci/abstruse''], faults = []\<rparr>\<rparr>"




text \<open>
  A process started in the directory of its configuration file, which it is given by a
  relative path.
\<close>

definition started_in_place :: world where
  "started_in_place = startup
     \<lparr>fsys := \<lparr>files = [(''abstruse.json'', Encoded ''json'' [(''tls.cert'', VStr ''cert.pem'')])],
               dirs = [''/'', ''.''], faults = []\<rparr>\<rparr>"

text \<open>A configuration an administrator may submit, with a new JWT secret.\<close>

definition new_config :: config where
  "new_config =
     \<lparr>cfg_HTTP = \<lparr>HTTP_Addr = ''0.0.0.0:443'', HTTP_TLS = True\<rparr>,
      cfg_TLS = \<lparr>TLS_Cert = ''/etc/ssl/cert.pem'', TLS_Key = ''/etc/ssl/key.pem''\<rparr>,
      cfg_Db = \<lparr>Db_Driver = ''mysql'', Db_Host = ''db.internal'', Db_Port = 3306,
                Db_User = ''ci'', Db_Password = ''pw'', Db_Name = ''abstruse'',
                Db_Charset = ''utf8''\<rparr>,
      cfg_Etcd = \<lparr>Etcd_Name = ''abstruse'', Etcd_Host = ''0.0.0.0'', Etcd_ClientPort = 2379,
                  Etcd_PeerPort = 2380, Etcd_DataDir = ''/var/lib/etcd'',
                  Etcd_Username = ''abstruse'', Etcd_Password = ''abstruse'',
                  Etcd_RootPassword = ''abstruse''\<rparr>,
      cfg_Auth = \<lparr>Auth_JWTSecret = ''new-secret'', Auth_JWTExpiry = 600,
                  Auth_JWTRefreshExpiry = 7200\<rparr>,
      cfg_Log = \<lparr>Log_Level = ''debug'', Log_Stdout = True,
                 Log_Filename = ''/var/log/abstruse.log'', Log_MaxSize = 500,
                 Log_MaxBackups = 3, Log_MaxAge = 3\<rparr>\<rparr>"

text \<open>
  A configuration that is not well-formed: every text field is empty (no address, no
  driver, no secret, no paths) and the database port is negative.
\<close>

definition bad_config :: config where
  "bad_config = zero_config\<lparr>cfg_Db := (cfg_Db zero_config)\<lparr>Db_Port := - 1\<rparr>\<rparr>"

text \<open>
  A running server: start-up is over, \<^verbatim>\<open>Config\<close> and \<^verbatim>\<open>Log\<close> are assigned, the
  binder knows the configuration file, and authentication and database are initialised.
\<close>

definition old_config :: config where
  "old_config = new_config\<lparr>cfg_Auth := \<lparr>Auth_JWTSecret = ''old-secret'', Auth_JWTExpiry = 900,
                                          Auth_JWTRefreshExpiry = 3600\<rparr>\<rparr>"

definition running :: world where
  "running =
     \<lparr>ConfigFile = ''/home/ci/abstruse/abstruse-server.json'',
      Config = Some old_config,
      Log = Some (Logger (cfg_Log old_config)),
      vp = \<lparr>v_configFile = ''/home/ci/abstruse/abstruse-server.json'', v_configType = ''json'',
             v_envPrefix = ''abstruse'', v_envKeyReplacer = Some (CHR ''.'', CHR ''_''),
             v_automaticEnvApplied = True, v_override = [],
             v_pflags = rev bindings,
             v_config = map (\<lambda>(k, f). (k, f old_config)) settings\<rparr>,
      flagset = cmd_flags,
      environ = [],
      homedir = Some ''/home/ci'',
      fsys = \<lparr>files = [(''/home/ci/abstruse/abstruse-server.json'',
                         Encoded ''json'' (map (\<lambda>(k, f). (k, f old_config)) settings))],
               dirs = [''/'', ''/home'', ''/home/ci'', ''/home/ci/abstruse''], faults = []\<rparr>,
      auth_state = Some (''old-secret'', 900, 3600),
      db_conn = Some (cfg_Db old_config, Some (Logger (cfg_Log old_config))),
      trace = [],
      lib = lib0\<rparr>"

text \<open>The same server after its configuration directory has been removed.\<close>

definition running_no_dir :: world where
  "running_no_dir =
     running\<lparr>fsys := \<lparr>files = [], dirs = [''/'', ''/home'', ''/home/ci''], faults = []\<rparr>\<rparr>"

text \<open>
  A server that was started with \<^verbatim>\<open>--config /etc/abstruse/server.yaml\<close>, a file that
  holds the JSON document the server reads.
\<close>

definition running_yaml :: world where
  "running_yaml = running
     \<lparr>ConfigFile := ''/etc/abstruse/server.yaml'',
      vp := (vp running)\<lparr>v_configFile := ''/etc/abstruse/server.yaml''\<rparr>,
      fsys := \<lparr>files = [(''/etc/abstruse/server.yaml'',
                          Encoded ''json'' (map (\<lambda>(k, f). (k, f old_config)) settings))],
               dirs = [''/'', ''/etc'', ''/etc/abstruse''], faults = []\<rparr>\<rparr>"

text \<open>
  For the master application: nested configurations without content, which accept an
  object or \<^verbatim>\<open>null\<close>, and a disk with a well-formed configuration file, one whose
  \<^verbatim>\<open>log_level\<close> is a number, and one that is not JSON.
\<close>

definition nested0 :: "(unit, unit) nested" where
  "nested0 =
     \<lparr>zero_Etcd = (), zero_GRPC = (),
      unmarshal_Etcd = (\<lambda>j e. (e, case j of JNull \<Rightarrow> False | JObject kvs \<Rightarrow> False | _ \<Rightarrow> True)),
      unmarshal_GRPC = (\<lambda>j g. (g, case j of JNull \<Rightarrow> False | JObject kvs \<Rightarrow> False | _ \<Rightarrow> True))\<rparr>"

definition disk0 :: "(string \<times> document) list" where
  "disk0 =
     [(''/etc/abstruse/master.json'',
       JSON (JObject [(''cert'', JString ''/etc/ssl/cert.pem''),
                      (''key'', JString ''/etc/ssl/key.pem''),
                      (''etcd'', JObject []),
                      (''grpc'', JObject []),
                      (''log_level'', JString ''info'')])),
      (''/etc/abstruse/typo.json'',
       JSON (JObject [(''cert'', JString ''/etc/ssl/cert.pem''),
                      (''log_level'', JNumber ''5'')])),
      (''/etc/abstruse/broken.json'', Garbage)]"

section \<open>Facts about lexical paths\<close>

lemma HasPrefix_slash: "HasPrefix p ''/'' \<longleftrightarrow> (\<exists>r. p = CHR ''/'' # r)"
  by (cases p) (auto simp: HasPrefix_def)

lemma Clean_rooted: "HasPrefix p ''/'' \<Longrightarrow> HasPrefix (Clean p) ''/''"
  by (auto simp: HasPrefix_slash Clean_def Let_def)

lemma dropWhile_snoc_stop: "\<not> P x \<Longrightarrow> \<exists>q. dropWhile P (ys @ [x]) = q @ [x]"
  by (induction ys) auto

lemma Dir_rooted: "HasPrefix p ''/'' \<Longrightarrow> HasPrefix (Dir p) ''/''"
proof -
  assume "HasPrefix p ''/''"
  then obtain r where p: "p = CHR ''/'' # r"
    by (auto simp: HasPrefix_slash)
  obtain q where "dropWhile (\<lambda>c. c \<noteq> CHR ''/'') (rev r @ [CHR ''/'']) = q @ [CHR ''/'']"
    using dropWhile_snoc_stop [of "\<lambda>c. c \<noteq> CHR ''/''" "CHR ''/''" "rev r"] by auto
  then have "rev (dropWhile (\<lambda>c. c \<noteq> CHR ''/'') (rev p)) = CHR ''/'' # rev q"
    by (simp add: p)
  then have "HasPrefix (rev (dropWhile (\<lambda>c. c \<noteq> CHR ''/'') (rev p))) ''/''"
    by (simp add: HasPrefix_def)
  then show ?thesis
    unfolding Dir_def by (rule Clean_rooted)
qed

lemma Join_rooted: "HasPrefix d ''/'' \<Longrightarrow> HasPrefix (Join [d, p]) ''/''"
  by (auto simp: Join_def HasPrefix_slash intro!: Clean_rooted [unfolded HasPrefix_slash])

lemma Resolve_rooted: "HasPrefix d ''/'' \<Longrightarrow> HasPrefix (Resolve d p) ''/''"
  by (simp add: Resolve_def Join_rooted)

lemma Resolve_absolute: "HasPrefix p ''/'' \<Longrightarrow> Resolve d p = p"
  by (simp add: Resolve_def)

section \<open>Facts about blocks of statements\<close>

lemma andThen_Return:
  "andThen m f w = (Return y, w') \<longleftrightarrow> (\<exists>x w1. m w = (Return x, w1) \<and> f x w1 = (Return y, w'))"
  by (auto simp: andThen_def split: prod.splits outcome.splits)

lemma seq_Cons_Return:
  "seq (s # ss) w = (Return u, w') \<longleftrightarrow> (\<exists>w1. s w = (Return (), w1) \<and> seq ss w1 = (Return u, w'))"
  by (simp add: andThen_Return)

lemma seq_Nil_Return: "seq [] w = (Return u, w') \<longleftrightarrow> w' = w"
  by auto

lemma seq_append: "seq (xs @ ys) w = andThen (seq xs) (\<lambda>_. seq ys) w"
  by (induction xs arbitrary: w) (auto simp: andThen_def split: prod.splits outcome.splits)

lemma upd_Return: "upd f w = (Return u, w') \<longleftrightarrow> w' = f w"
  by (auto simp: upd_def)

lemma orFatal_Return: "orFatal f w = (Return u, w') \<longleftrightarrow> f w = (None, w')"
  by (auto simp: orFatal_def fatal_def split: prod.splits option.splits)

lemma on_Config_Return:
  "on_Config f w = (Return u, w') \<longleftrightarrow> (\<exists>c. Config w = Some c \<and> w' = f c w)"
  by (auto simp: on_Config_def split: option.splits)

lemma Log_Infof_Return:
  "Log_Infof msg w = (Return u, w') \<longleftrightarrow>
     (Log w \<noteq> None \<and> w' = w\<lparr>trace := trace w @ [LogInfo msg]\<rparr>)"
  by (auto simp: Log_Infof_def split: option.splits)

subsection \<open>Statements that leave the variable Config alone\<close>

lemma keeps_Config_andThen:
  "keeps_Config m \<Longrightarrow> (\<And>x. keeps_Config (f x)) \<Longrightarrow> keeps_Config (andThen m f)"
  unfolding keeps_Config_def andThen_def
  by (auto split: prod.splits outcome.splits) (metis snd_conv)+

lemma seq_Cons_fun: "seq (s # ss) = andThen s (\<lambda>_. seq ss)"
  by (rule ext) simp

lemma keeps_Config_seq: "(\<And>s. s \<in> set ss \<Longrightarrow> keeps_Config s) \<Longrightarrow> keeps_Config (seq ss)"
proof (induction ss)
  case Nil
  show ?case by (simp add: keeps_Config_def)
next
  case (Cons s ss)
  then show ?case by (simp add: seq_Cons_fun keeps_Config_andThen)
qed

lemma Set_from_Config_frame: "keeps_Config (Set_from_Config kf)"
  by (auto simp: keeps_Config_def Set_from_Config_def on_Config_def viper_Set_def
           split: option.splits)

lemma InitAuthentication_frame: "keeps_Config InitAuthentication"
  by (auto simp: keeps_Config_def InitAuthentication_def upd_def auth_Init_def Let_def)

lemma InitDB_frame: "keeps_Config InitDB"
  by (auto simp: keeps_Config_def InitDB_def db_Connect_def fatal_def split: option.splits)

lemma Log_Infof_frame: "keeps_Config (\<lambda>w. Log_Infof (msg w) w)"
  by (auto simp: keeps_Config_def Log_Infof_def split: option.splits)

text \<open>What a write leaves alone, whether it succeeds or not.\<close>

lemma write_file_fields:
  assumes "write_file p x w = (r, w')"
  shows "vp w' = vp w" "Config w' = Config w" "Log w' = Log w" "ConfigFile w' = ConfigFile w"
    "flagset w' = flagset w" "environ w' = environ w" "lib w' = lib w"
    "auth_state w' = auth_state w" "db_conn w' = db_conn w"
  using assms by (auto simp: write_file_def split: if_splits option.splits fault.splits)

lemma write_file_None:
  "write_file p x w = (None, w') \<Longrightarrow>
     p \<noteq> [] \<and>
     w' = w\<lparr>fsys := (fsys w)\<lparr>files := put p x (files (fsys w))\<rparr>,
            trace := trace w @ [FileWritten p]\<rparr>"
  by (auto simp: write_file_def split: if_splits option.splits fault.splits)

lemma write_file_Some: "write_file p x w = (Some e, w') \<Longrightarrow> e = PersistError \<and> trace w' = trace w"
  by (auto simp: write_file_def split: if_splits option.splits fault.splits)

lemma writeConfig_fields:
  assumes "writeConfig p w = (r, w')"
  shows "vp w' = vp w" "Config w' = Config w" "Log w' = Log w" "ConfigFile w' = ConfigFile w"
    "flagset w' = flagset w" "environ w' = environ w" "lib w' = lib w"
    "auth_state w' = auth_state w" "db_conn w' = db_conn w"
  using assms
    write_file_fields [of p "Encoded (format_of (writeConfigType (vp w) p)) (AllSettings w)" w r w']
  by (auto simp: writeConfig_def split: if_splits)

lemma writeConfig_None:
  assumes "writeConfig p w = (None, w')"
  shows "writeConfigType (vp w) p \<in> set SupportedExts"
    and "w' = w\<lparr>fsys := (fsys w)\<lparr>files :=
                    put p (Encoded (format_of (writeConfigType (vp w) p)) (AllSettings w))
                      (files (fsys w))\<rparr>,
                trace := trace w @ [FileWritten p]\<rparr>"
    and "p \<noteq> []"
  using assms
    write_file_None [of p "Encoded (format_of (writeConfigType (vp w) p)) (AllSettings w)" w w']
  by (auto simp: writeConfig_def split: if_splits)

lemma writeConfig_Some:
  assumes "writeConfig p w = (Some e, w')"
  shows "e = PersistError \<and> trace w' = trace w"
  using assms
    write_file_Some [of p "Encoded (format_of (writeConfigType (vp w) p)) (AllSettings w)" w e w']
  by (auto simp: writeConfig_def split: if_splits)

lemma write_back_frame:
  "keeps_Config (\<lambda>w. case viper_WriteConfigAs (ConfigFileUsed w) w of (err, w') \<Rightarrow> (Return err, w'))"
  using writeConfig_fields(2)
  by (auto simp: keeps_Config_def viper_WriteConfigAs_def split: prod.splits)

lemma SaveConfig_unfold: "SaveConfig cfg w = SaveConfig_rest (w\<lparr>Config := cfg\<rparr>)"
  by (simp add: SaveConfig_def SaveConfig_rest_def andThen_def upd_def
           split: prod.splits outcome.splits)

lemma SaveConfig_rest_frame: "keeps_Config SaveConfig_rest"
  unfolding SaveConfig_rest_def
  by (intro keeps_Config_andThen keeps_Config_seq write_back_frame;
      auto simp: Set_from_Config_frame InitAuthentication_frame InitDB_frame Log_Infof_frame)

section \<open>Reconfiguration: the steps of SaveConfig\<close>

lemma map_of_put: "map_of (put k v m) k' = (if k' = k then Some v else map_of m k')"
  by (induction m) (auto simp: put_def)

lemma viper_Set_fields:
  "Config (viper_Set k x w) = Config w" "Log (viper_Set k x w) = Log w"
  "fsys (viper_Set k x w) = fsys w" "trace (viper_Set k x w) = trace w"
  "flagset (viper_Set k x w) = flagset w" "environ (viper_Set k x w) = environ w"
  "lib (viper_Set k x w) = lib w" "ConfigFileUsed (viper_Set k x w) = ConfigFileUsed w"
  "v_configType (vp (viper_Set k x w)) = v_configType (vp w)"
  by (simp_all add: viper_Set_def ConfigFileUsed_def)

lemma foldl_Set_fields:
  "Config (foldl (\<lambda>w kf. viper_Set (fst kf) (snd kf c) w) w kfs) = Config w"
  "Log (foldl (\<lambda>w kf. viper_Set (fst kf) (snd kf c) w) w kfs) = Log w"
  "fsys (foldl (\<lambda>w kf. viper_Set (fst kf) (snd kf c) w) w kfs) = fsys w"
  "trace (foldl (\<lambda>w kf. viper_Set (fst kf) (snd kf c) w) w kfs) = trace w"
  "lib (foldl (\<lambda>w kf. viper_Set (fst kf) (snd kf c) w) w kfs) = lib w"
  "ConfigFileUsed (foldl (\<lambda>w kf. viper_Set (fst kf) (snd kf c) w) w kfs) = ConfigFileUsed w"
  "v_configType (vp (foldl (\<lambda>w kf. viper_Set (fst kf) (snd kf c) w) w kfs)) = v_configType (vp w)"
  by (induction kfs arbitrary: w) (simp_all add: viper_Set_fields)

lemma foldl_Set_override:
  "map_of (v_override (vp (foldl (\<lambda>w kf. viper_Set (fst kf) (snd kf c) w) w kfs))) k =
     (case map_of (rev kfs) k of
        Some f \<Rightarrow> Some (f c)
      | None \<Rightarrow> map_of (v_override (vp w)) k)"
proof (induction kfs arbitrary: w)
  case Nil
  show ?case by simp
next
  case (Cons kf kfs)
  have "map_of (v_override (vp (viper_Set (fst kf) (snd kf c) w))) k =
          (if k = fst kf then Some (snd kf c) else map_of (v_override (vp w)) k)"
    by (simp add: viper_Set_def map_of_put)
  then show ?case
    by (cases kf) (auto simp: Cons.IH map_add_def split: option.splits)
qed

lemma apply_settings_fields:
  "Config (apply_settings c w) = Config w" "Log (apply_settings c w) = Log w"
  "fsys (apply_settings c w) = fsys w" "trace (apply_settings c w) = trace w"
  "lib (apply_settings c w) = lib w" "ConfigFileUsed (apply_settings c w) = ConfigFileUsed w"
  "v_configType (vp (apply_settings c w)) = v_configType (vp w)"
  by (simp_all add: apply_settings_def foldl_Set_fields)

lemma distinct_settings: "distinct (map fst (rev settings))"
  by (simp add: settings_def)

lemma apply_settings_override:
  assumes "(k, f) \<in> set settings"
  shows "map_of (v_override (vp (apply_settings c w))) k = Some (f c)"
proof -
  from assms have "map_of (rev settings) k = Some f"
    using distinct_settings by (intro map_of_is_SomeI) auto
  then show ?thesis
    by (simp add: apply_settings_def foldl_Set_override)
qed

lemma apply_settings_Get:
  "(k, f) \<in> set settings \<Longrightarrow> viper_Get (apply_settings c w) k = Some (f c)"
  by (simp add: viper_Get_def apply_settings_override)

lemma seq_Set_from_Config:
  "Config w = Some c \<Longrightarrow>
   seq (map Set_from_Config kfs) w =
     (Return (), foldl (\<lambda>w kf. viper_Set (fst kf) (snd kf c) w) w kfs)"
proof (induction kfs arbitrary: w)
  case Nil
  show ?case by simp
next
  case (Cons kf kfs)
  have "Set_from_Config kf w = (Return (), viper_Set (fst kf) (snd kf c) w)"
    using Cons.prems by (simp add: Set_from_Config_def on_Config_def)
  moreover have "Config (viper_Set (fst kf) (snd kf c) w) = Some c"
    using Cons.prems by (simp add: viper_Set_fields)
  ultimately show ?case
    using Cons.IH by (simp add: andThen_def)
qed

lemma settings_auth:
  "(''auth.jwtsecret'', \<lambda>c. VStr (Auth_JWTSecret (cfg_Auth c))) \<in> set settings"
  "(''auth.jwtexpiry'', \<lambda>c. VInt (Auth_JWTExpiry (cfg_Auth c))) \<in> set settings"
  "(''auth.jwtrefreshexpiry'', \<lambda>c. VInt (Auth_JWTRefreshExpiry (cfg_Auth c))) \<in> set settings"
  by (simp_all add: settings_def)

lemma apply_settings_auth:
  "viper_GetString (apply_settings c w) ''auth.jwtsecret'' = Auth_JWTSecret (cfg_Auth c)"
  "viper_GetDuration (apply_settings c w) ''auth.jwtexpiry'' = Auth_JWTExpiry (cfg_Auth c)"
  "viper_GetDuration (apply_settings c w) ''auth.jwtrefreshexpiry'' = Auth_JWTRefreshExpiry (cfg_Auth c)"
  by (simp_all add: viper_GetString_def viper_GetDuration_def apply_settings_Get [OF settings_auth(1)]
        apply_settings_Get [OF settings_auth(2)] apply_settings_Get [OF settings_auth(3)])

text \<open>
  The run of \<^verbatim>\<open>SaveConfig\<close> on a configuration that is not nil: the \<^verbatim>\<open>viper.Set\<close> lines
  and the authentication set-up always go through; the database connection may end the
  process, a nil logger panics at line 191, and otherwise the write is attempted in the
  world \<open>pre_write c w\<close>.
\<close>

lemma SaveConfig_Some:
  "SaveConfig (Some c) w =
     (let w1 = apply_settings c (w\<lparr>Config := Some c\<rparr>);
          w2 = w1\<lparr>auth_state := Some (Auth_JWTSecret (cfg_Auth c), Auth_JWTExpiry (cfg_Auth c),
                                        Auth_JWTRefreshExpiry (cfg_Auth c)),
                  trace := trace w @
                    [AuthInit (Auth_JWTSecret (cfg_Auth c)) (Auth_JWTExpiry (cfg_Auth c))
                       (Auth_JWTRefreshExpiry (cfg_Auth c))]\<rparr>
      in if \<not> db_reachable (lib w) (cfg_Db c)
         then (Exit DatabaseConnectError, w2\<lparr>trace := trace w2 @ [Printed DatabaseConnectError]\<rparr>)
         else if Log w = None
         then (Panic, w2\<lparr>db_conn := Some (cfg_Db c, Log w),
                         trace := trace w2 @ [DbConnect (cfg_Db c)]\<rparr>)
         else (case writeConfig (ConfigFileUsed w) (pre_write c w) of
                 (err, w') \<Rightarrow> (Return err, w')))"
proof -
  let ?w0 = "w\<lparr>Config := Some c\<rparr>"
  have c0: "Config ?w0 = Some c" by simp
  have s: "seq (map Set_from_Config settings) ?w0 = (Return (), apply_settings c ?w0)"
    using seq_Set_from_Config [OF c0] by (simp add: apply_settings_def)
  note f = apply_settings_fields [of c ?w0]
  have cfg1: "Config (apply_settings c ?w0) = Some c"
    by (simp add: f)
  have cf: "v_configFile (vp (apply_settings c ?w0)) = v_configFile (vp w)"
    using f(6) by (simp add: ConfigFileUsed_def)
  show ?thesis
    unfolding SaveConfig_unfold SaveConfig_rest_def
    by (simp add: andThen_def seq_append s cfg1 InitAuthentication_def upd_def Let_def
          InitDB_def auth_Init_def db_Connect_def fatal_def Log_Infof_def ConfigFileUsed_def
          viper_WriteConfigAs_def apply_settings_auth f cf pre_write_def
          split: option.splits prod.splits)
qed

lemma SaveConfig_None: "SaveConfig None w = (Panic, w\<lparr>Config := None\<rparr>)"
  unfolding SaveConfig_unfold SaveConfig_rest_def
  by (simp add: settings_def andThen_def Set_from_Config_def on_Config_def)

text \<open>
  What a call of \<^verbatim>\<open>SaveConfig\<close> that returns has done, whatever it returns: the world
  \<open>pre_write c w\<close> is reached, and the write is attempted there.
\<close>

lemma SaveConfig_Return:
  assumes "SaveConfig cfg w = (Return err, w')"
  shows "\<exists>c l. cfg = Some c \<and> Log w = Some l \<and>
           writeConfig (ConfigFileUsed w) (pre_write c w) = (err, w')"
proof (cases cfg)
  case None
  with assms show ?thesis by (simp add: SaveConfig_None)
next
  case (Some c)
  with assms show ?thesis
    by (auto simp: SaveConfig_Some Let_def split: if_splits prod.splits)
qed

lemma pre_write_fields:
  "Config (pre_write c w) = Some c"
  "fsys (pre_write c w) = fsys w"
  "vp (pre_write c w) = vp (apply_settings c (w\<lparr>Config := Some c\<rparr>))"
  "ConfigFileUsed (pre_write c w) = ConfigFileUsed w"
  "auth_state (pre_write c w) =
     Some (Auth_JWTSecret (cfg_Auth c), Auth_JWTExpiry (cfg_Auth c), Auth_JWTRefreshExpiry (cfg_Auth c))"
  "db_conn (pre_write c w) = Some (cfg_Db c, Log w)"
  "lib (pre_write c w) = lib w"
  "v_configType (vp (pre_write c w)) = v_configType (vp w)"
  using apply_settings_fields [of c "w\<lparr>Config := Some c\<rparr>"]
  by (simp_all add: pre_write_def ConfigFileUsed_def)







section \<open>Start-up: what InitConfig leaves behind\<close>

lemma Clean_nonempty: "Clean p \<noteq> []"
  by (simp add: Clean_def Let_def)

lemma default_path_nonempty: "Join [h, ''abstruse'', ''abstruse-server.json''] \<noteq> []"
  by (cases h) (simp_all add: Join_def Clean_nonempty)

lemma default_config_file_Return:
  assumes "default_config_file w = (Return (), w1)"
  shows "\<exists>p. p \<noteq> [] \<and> w1 = w\<lparr>ConfigFile := p\<rparr> \<and>
             (if ConfigFile w = []
              then \<exists>h. homedir w = Some h \<and> p = Join [h, ''abstruse'', ''abstruse-server.json'']
              else p = ConfigFile w)"
  using assms
  by (auto simp: default_config_file_def fatal_def default_path_nonempty
           split: if_splits option.splits)

lemma configure_viper_eq:
  "ConfigFile w \<noteq> [] \<Longrightarrow>
   configure_viper w =
     (Return (), w\<lparr>vp := (vp w)\<lparr>v_configFile := ConfigFile w, v_configType := ''json'',
                                 v_envPrefix := ''abstruse'',
                                 v_envKeyReplacer := Some (CHR ''.'', CHR ''_''),
                                 v_automaticEnvApplied := True\<rparr>\<rparr>)"
  by (simp add: configure_viper_def andThen_def upd_def viper_SetConfigFile_def
        viper_SetConfigType_def viper_SetEnvPrefix_def viper_SetEnvKeyReplacer_def
        viper_AutomaticEnv_def)

lemma fs_MakeDir_fields:
  assumes "fs_MakeDir d w = (r, w')"
  shows "vp w' = vp w" "Config w' = Config w" "Log w' = Log w" "ConfigFile w' = ConfigFile w"
    "flagset w' = flagset w" "environ w' = environ w" "lib w' = lib w"
  using assms by (auto simp: fs_MakeDir_def split: if_splits)

lemma SafeWrite_fields:
  assumes "viper_SafeWriteConfigAs p w = (r, w')"
  shows "vp w' = vp w" "Config w' = Config w" "Log w' = Log w" "ConfigFile w' = ConfigFile w"
    "flagset w' = flagset w" "environ w' = environ w" "lib w' = lib w"
  using assms writeConfig_fields [of p w r w']
  by (auto simp: viper_SafeWriteConfigAs_def split: if_splits)

lemma SafeWrite_err:
  "viper_SafeWriteConfigAs p w = (Some e, w') \<Longrightarrow> e = PersistError"
  using writeConfig_Some [of p w e w']
  by (auto simp: viper_SafeWriteConfigAs_def split: if_splits)

lemma write_default_config_Return:
  assumes "write_default_config w = (Return (), w')"
  shows "vp w' = vp w" "Config w' = Config w" "Log w' = Log w" "ConfigFile w' = ConfigFile w"
    "flagset w' = flagset w" "environ w' = environ w" "lib w' = lib w"
    "\<not> fs_Exists w (ConfigFileUsed w) \<Longrightarrow> Log w \<noteq> None"
proof -
  have "vp w' = vp w \<and> Config w' = Config w \<and> Log w' = Log w \<and> ConfigFile w' = ConfigFile w \<and>
        flagset w' = flagset w \<and> environ w' = environ w \<and> lib w' = lib w \<and>
        (\<not> fs_Exists w (ConfigFileUsed w) \<longrightarrow> Log w \<noteq> None)"
  proof (cases "fs_Exists w (ConfigFileUsed w)")
    case True
    with assms show ?thesis by (simp add: write_default_config_def)
  next
    case False
    with assms have
      "seq [(\<lambda>w. if \<not> fs_Exists w (Dir (ConfigFile w))
                   then orFatal (fs_MakeDir (Dir (ConfigFile w))) w
                   else (Return (), w)),
             (\<lambda>w. orFatal (viper_SafeWriteConfigAs (ConfigFileUsed w)) w),
             (\<lambda>w. Log_Infof (''config file save to '' @ ConfigFileUsed w) w)] w = (Return (), w')"
      by (simp add: write_default_config_def del: seq.simps)
    then obtain w1 w2 where
      1: "(if \<not> fs_Exists w (Dir (ConfigFile w))
           then orFatal (fs_MakeDir (Dir (ConfigFile w))) w
           else (Return (), w)) = (Return (), w1)"
      and 2: "viper_SafeWriteConfigAs (ConfigFileUsed w1) w1 = (None, w2)"
      and 3: "Log_Infof (''config file save to '' @ ConfigFileUsed w2) w2 = (Return (), w')"
      unfolding seq_Cons_Return seq_Nil_Return orFatal_Return by blast
    from 1 have a: "vp w1 = vp w \<and> Config w1 = Config w \<and> Log w1 = Log w \<and>
        ConfigFile w1 = ConfigFile w \<and> flagset w1 = flagset w \<and> environ w1 = environ w \<and>
        lib w1 = lib w"
      using fs_MakeDir_fields [of "Dir (ConfigFile w)" w None w1]
      by (auto simp: orFatal_Return split: if_splits)
    from 3 have c: "Log w2 \<noteq> None"
      and "w' = w2\<lparr>trace := trace w2 @ [LogInfo (''config file save to '' @ ConfigFileUsed w2)]\<rparr>"
      by (simp_all add: Log_Infof_Return)
    with a SafeWrite_fields [OF 2] show ?thesis by simp
  qed
  then show "vp w' = vp w" "Config w' = Config w" "Log w' = Log w" "ConfigFile w' = ConfigFile w"
    "flagset w' = flagset w" "environ w' = environ w" "lib w' = lib w"
    "\<not> fs_Exists w (ConfigFileUsed w) \<Longrightarrow> Log w \<noteq> None"
    by simp_all
qed

lemma viper_ReadInConfig_None:
  assumes "viper_ReadInConfig w = (None, w')"
  shows "\<exists>c kvs. map_of (files (fsys w)) (ConfigFileUsed w) = Some c \<and>
                 readBufferConfig (lib w) (getConfigType (vp w)) c = Some kvs \<and>
                 w' = w\<lparr>vp := (vp w)\<lparr>v_config := kvs\<rparr>\<rparr>"
  using assms
  by (auto simp: viper_ReadInConfig_def ConfigFileUsed_def split: if_splits option.splits)

lemma readBufferConfig_json:
  "readBufferConfig L ''json'' c = Some kvs \<Longrightarrow> \<exists>fmt. c = Encoded fmt kvs"
  by (auto simp: readBufferConfig_def split: content.splits if_splits)

lemma viper_Unmarshal_Config_None:
  assumes "viper_Unmarshal_Config w = (None, w')"
  shows "\<exists>c0. decode_config (lib w) (AllSettings w)
                 (case Config w of None \<Rightarrow> zero_config | Some c \<Rightarrow> c) = Some c0 \<and>
              w' = w\<lparr>Config := Some c0\<rparr>"
  using assms by (auto simp: viper_Unmarshal_Config_def split: option.splits)

lemma normalize_paths_eq:
  assumes "Config w = Some c"
  shows "normalize_paths w =
           (Return (), w\<lparr>Config := Some (normalized (Dir (ConfigFileUsed w)) c)\<rparr>)"
proof -
  have w: "w = w\<lparr>Config := Some c\<rparr>"
    using assms by (cases w) simp
  show ?thesis
    apply (subst (1) w)
    apply (simp add: normalize_paths_def andThen_def on_Config_def normalized_def Resolve_def
             ConfigFileUsed_def)
    done
qed

lemma assign_logger_Return:
  assumes "assign_logger w = (Return (), w')"
  shows "\<exists>c. Config w = Some c \<and> w' = w\<lparr>Log := Some (Logger (cfg_Log c))\<rparr>"
  using assms by (auto simp: assign_logger_def fatal_def split: option.splits if_splits)

lemma viper_Get_cong:
  "vp w = vp w' \<Longrightarrow> flagset w = flagset w' \<Longrightarrow> environ w = environ w' \<Longrightarrow>
   viper_Get w k = viper_Get w' k"
  by (simp add: viper_Get_def bound_flag_def isPathShadowedInAutoEnv_def
           cong: option.case_cong if_cong)

lemma AllSettings_cong:
  "vp w = vp w' \<Longrightarrow> flagset w = flagset w' \<Longrightarrow> environ w = environ w' \<Longrightarrow>
   AllSettings w = AllSettings w'"
  using viper_Get_cong [of w w'] by (simp add: AllSettings_def AllKeys_def cong: map_cong)

text \<open>The world a returning \<^verbatim>\<open>InitConfig\<close> leaves, in terms of the world it started in.\<close>

lemma InitConfig_Return:
  assumes "InitConfig w = (Return (), w')"
  shows "\<exists>p kvs c0.
           p \<noteq> [] \<and>
           (if ConfigFile w = []
            then \<exists>h. homedir w = Some h \<and> p = Join [h, ''abstruse'', ''abstruse-server.json'']
            else p = ConfigFile w) \<and>
           ConfigFile w' = p \<and>
           vp w' = (vp w)\<lparr>v_configFile := p, v_configType := ''json'', v_envPrefix := ''abstruse'',
                           v_envKeyReplacer := Some (CHR ''.'', CHR ''_''),
                           v_automaticEnvApplied := True, v_config := kvs\<rparr> \<and>
           (\<exists>fmt. map_of (files (fsys w')) p = Some (Encoded fmt kvs)) \<and>
           flagset w' = flagset w \<and> environ w' = environ w \<and> lib w' = lib w \<and>
           decode_config (lib w) (AllSettings w')
             (case Config w of None \<Rightarrow> zero_config | Some c \<Rightarrow> c) = Some c0 \<and>
           Config w' = Some (normalized (Dir p) c0) \<and>
           Log w' = Some (Logger (cfg_Log (normalized (Dir p) c0))) \<and>
           (fs_Exists (w\<lparr>ConfigFile := p\<rparr>) p \<or> Log w \<noteq> None)"
proof -
  from assms obtain w1 w2 w3 w4 w5 w6 where
    s1: "default_config_file w = (Return (), w1)" and
    s2: "configure_viper w1 = (Return (), w2)" and
    s3: "write_default_config w2 = (Return (), w3)" and
    s4: "viper_ReadInConfig w3 = (None, w4)" and
    s5: "viper_Unmarshal_Config w4 = (None, w5)" and
    s6: "normalize_paths w5 = (Return (), w6)" and
    s7: "assign_logger w6 = (Return (), w')"
    unfolding InitConfig_def seq_Cons_Return seq_Nil_Return orFatal_Return by blast
  from default_config_file_Return [OF s1] obtain p where
    p: "p \<noteq> []" and w1: "w1 = w\<lparr>ConfigFile := p\<rparr>" and
    pw: "if ConfigFile w = []
         then \<exists>h. homedir w = Some h \<and> p = Join [h, ''abstruse'', ''abstruse-server.json'']
         else p = ConfigFile w"
    by blast
  have w2: "w2 = w1\<lparr>vp := (vp w1)\<lparr>v_configFile := p, v_configType := ''json'',
                                 v_envPrefix := ''abstruse'',
                                 v_envKeyReplacer := Some (CHR ''.'', CHR ''_''),
                                 v_automaticEnvApplied := True\<rparr>\<rparr>"
    using s2 p by (simp add: configure_viper_eq w1)
  note f3 = write_default_config_Return [OF s3]
  have t3: "getConfigType (vp w3) = ''json''"
    using f3(1) by (simp add: w2 getConfigType_def)
  from viper_ReadInConfig_None [OF s4] obtain c kvs where
    "map_of (files (fsys w3)) (ConfigFileUsed w3) = Some c" and
    "readBufferConfig (lib w3) ''json'' c = Some kvs" and
    w4: "w4 = w3\<lparr>vp := (vp w3)\<lparr>v_config := kvs\<rparr>\<rparr>"
    unfolding t3 by blast
  with readBufferConfig_json [of "lib w3" c kvs] obtain fmt where
    kvs: "map_of (files (fsys w3)) (ConfigFileUsed w3) = Some (Encoded fmt kvs)"
    by auto
  from viper_Unmarshal_Config_None [OF s5] obtain c0 where
    c0: "decode_config (lib w4) (AllSettings w4)
           (case Config w4 of None \<Rightarrow> zero_config | Some c \<Rightarrow> c) = Some c0" and
    w5: "w5 = w4\<lparr>Config := Some c0\<rparr>"
    by blast
  have w6: "w6 = w5\<lparr>Config := Some (normalized (Dir (ConfigFileUsed w5)) c0)\<rparr>"
    using s6 normalize_paths_eq [of w5 c0] by (simp add: w5)
  from assign_logger_Return [OF s7]
  have w': "w' = w6\<lparr>Log := Some (Logger (cfg_Log (normalized (Dir (ConfigFileUsed w5)) c0)))\<rparr>"
    by (auto simp: w6)
  have cf3: "ConfigFileUsed w3 = p"
    using f3(1) by (simp add: ConfigFileUsed_def w2)
  have cf5: "ConfigFileUsed w5 = p"
    using f3(1) by (simp add: ConfigFileUsed_def w5 w4 w2)
  have vp': "vp w' = (vp w)\<lparr>v_configFile := p, v_configType := ''json'', v_envPrefix := ''abstruse'',
                           v_envKeyReplacer := Some (CHR ''.'', CHR ''_''),
                           v_automaticEnvApplied := True, v_config := kvs\<rparr>"
    using f3(1) by (simp add: w' w6 w5 w4 w2 w1)
  have fl: "flagset w' = flagset w" "environ w' = environ w" "lib w' = lib w"
    using f3 by (simp_all add: w' w6 w5 w4 w2 w1)
  have same: "AllSettings w4 = AllSettings w'"
    by (rule AllSettings_cong) (simp_all add: w' w6 w5)
  have l4: "lib w4 = lib w" "Config w4 = Config w"
    using f3 by (simp_all add: w4 w2 w1)
  have fsys': "fsys w' = fsys w3"
    by (simp add: w' w6 w5 w4)
  have lg: "fs_Exists (w\<lparr>ConfigFile := p\<rparr>) p \<or> Log w \<noteq> None"
  proof (cases "fs_Exists w2 (ConfigFileUsed w2)")
    case True
    then show ?thesis by (simp add: fs_Exists_def w2 w1 ConfigFileUsed_def)
  next
    case False
    from f3(8) [OF False] show ?thesis by (simp add: w2 w1)
  qed
  have g1: "ConfigFile w' = p"
    using f3(4) by (simp add: w' w6 w5 w4 w2 w1)
  have g2: "\<exists>fmt. map_of (files (fsys w')) p = Some (Encoded fmt kvs)"
    using kvs by (simp add: fsys' cf3)
  have g3: "decode_config (lib w) (AllSettings w')
             (case Config w of None \<Rightarrow> zero_config | Some c \<Rightarrow> c) = Some c0"
    using c0 by (simp add: same l4)
  have g4: "Config w' = Some (normalized (Dir p) c0)"
    by (simp add: w' w6 cf5)
  have g5: "Log w' = Some (Logger (cfg_Log (normalized (Dir p) c0)))"
    by (simp add: w' cf5)
  show ?thesis
    using p pw g1 vp' g2 fl g3 g4 g5 lg by blast
qed

section \<open>Sample runs\<close>

text \<open>
  Each sample run is evaluated once; the scrutinee of the \<open>case\<close> is the run, and
  the components are what the run returned and what it left in the world.
\<close>

lemma run_SaveConfig_bad_config:
  "(case SaveConfig (Some bad_config) running of (r, w') \<Rightarrow> (r, Config w'))
     = (Return None, Some bad_config)"
  by code_simp

lemma run_SaveConfig_no_dir:
  "(case SaveConfig (Some new_config) running_no_dir of
      (r, w') \<Rightarrow> (r, Config w', auth_state w',
                 file_format w' ''/home/ci/abstruse/abstruse-server.json'',
                 fst (viper_ReadInConfig w')))
     = (Return (Some PersistError), Some new_config, Some (''new-secret'', 600, 7200),
        None, Some ConfigReadError)"
  by code_simp

lemma run_SaveConfig_new_config:
  "(case SaveConfig (Some new_config) running of (r, w') \<Rightarrow> (r, trace w', auth_state w'))
     = (Return None,
        [AuthInit ''new-secret'' 600 7200,
         DbConnect \<lparr>Db_Driver = ''mysql'', Db_Host = ''db.internal'', Db_Port = 3306,
                    Db_User = ''ci'', Db_Password = ''pw'', Db_Name = ''abstruse'',
                    Db_Charset = ''utf8''\<rparr>,
         LogInfo ''saving config file to /home/ci/abstruse/abstruse-server.json'',
         FileWritten ''/home/ci/abstruse/abstruse-server.json''],
        Some (''new-secret'', 600, 7200))"
  by code_simp


lemma sample_configs:
  "Config running = Some old_config" "Config running_no_dir = Some old_config"
  "old_config \<noteq> bad_config" "new_config \<noteq> old_config"
  "auth_state running = Some (''old-secret'', 900, 3600)"
  "auth_state running_no_dir = Some (''old-secret'', 900, 3600)"
  "trace running = []"
  "ConfigFileUsed running_no_dir = ''/home/ci/abstruse/abstruse-server.json''"
  "ConfigFileUsed running = ''/home/ci/abstruse/abstruse-server.json''"
  "cfg_Db new_config = \<lparr>Db_Driver = ''mysql'', Db_Host = ''db.internal'', Db_Port = 3306,
                    Db_User = ''ci'', Db_Password = ''pw'', Db_Name = ''abstruse'',
                    Db_Charset = ''utf8''\<rparr>"
  "Auth_JWTSecret (cfg_Auth new_config) = ''new-secret''"
  "Auth_JWTExpiry (cfg_Auth new_config) = 600"
  "Auth_JWTRefreshExpiry (cfg_Auth new_config) = 7200"
  "ConfigFileUsed running_yaml = ''/etc/abstruse/server.yaml''"
  "v_configType (vp running_yaml) = ''json''"
  by (simp_all add: running_def running_no_dir_def running_yaml_def old_config_def new_config_def
        bad_config_def zero_config_def ConfigFileUsed_def)


lemma sample_startup:
  "(Log (InitDefaults [] startup), ConfigFile (InitDefaults [] startup),
    homedir (InitDefaults [] startup),
    fs_Exists (InitDefaults [] startup) (Join [''/home/ci'', ''abstruse'', ''abstruse-server.json'']),
    fs_Exists (InitDefaults [] startup) ''/home/ci/abstruse'')
   = (None, [], Some ''/home/ci'', False, False)"
  by code_simp

lemma run_InitConfig_startup:
  "(case InitConfig (InitDefaults [] startup) of
      (r, w') \<Rightarrow> (r, Config w', Log w', trace w', fs_Exists w' ''/home/ci/abstruse'',
                 fs_Exists w' ''/home/ci/abstruse/abstruse-server.json''))
     = (Panic, None, None,
        [DirMade ''/home/ci/abstruse'', FileWritten ''/home/ci/abstruse/abstruse-server.json''],
        True, True)"
  by code_simp

lemma run_InitConfig_installed:
  "(case InitConfig (InitDefaults [] installed) of
      (r, w') \<Rightarrow> (r, ConfigFileUsed w', viper_Get w' ''db.host'',
                 map_option (Db_Host \<circ> cfg_Db) (Config w'),
                 viper_Get w' ''db.port'',
                 map_option (Db_Port \<circ> cfg_Db) (Config w')))
     = (Return (), ''/home/ci/abstruse/abstruse-server.json'', Some (VStr ''remote''),
        Some ''remote'', Some (VStr ''3307''), Some 3307)"
  by code_simp




lemma run_InitConfig_in_place:
  "(case InitConfig (InitDefaults ''abstruse.json'' started_in_place) of
      (r, w') \<Rightarrow> (r, map_option (TLS_Cert \<circ> cfg_TLS) (Config w'),
                 map_option (TLS_Key \<circ> cfg_TLS) (Config w'),
                 map_option (Etcd_DataDir \<circ> cfg_Etcd) (Config w'),
                 map_option (Log_Filename \<circ> cfg_Log) (Config w')))
     = (Return (), Some ''cert.pem'', Some ''certs/key.pem'', Some ''etcd-data'',
        Some ''abstruse-server.log'')"
  by code_simp






section \<open>Reconfiguration: what SaveConfig checks\<close>

text \<open>
  C1, as the code has it. \<^verbatim>\<open>SaveConfig\<close> validates nothing: its first statement
  (line 157) assigns its argument to the process-wide \<^verbatim>\<open>Config\<close>, and no later
  statement assigns \<^verbatim>\<open>Config\<close> again (the packages it calls cannot: the variable
  belongs to package \<^verbatim>\<open>core\<close>, which imports them). So after every call, however it
  ends, \<^verbatim>\<open>Config\<close> is the argument, well-formed or not (a nil argument included).
\<close>

theorem SaveConfig_replaces_Config:
  "Config (snd (SaveConfig cfg w)) = cfg"
  using SaveConfig_rest_frame by (simp add: SaveConfig_unfold keeps_Config_def)

text \<open>
  C1 as stated fails: on a running server, \<^verbatim>\<open>SaveConfig\<close> accepts the ill-formed
  \<open>bad_config\<close> (no address, no secret, a negative port), returns no error and leaves
  it as the active configuration in place of the previous one; given a nil pointer it
  panics after it has replaced the active configuration by nil.
\<close>

theorem SaveConfig_accepts_bad_config:
  "fst (SaveConfig (Some bad_config) running) = Return None \<and>
   Config (snd (SaveConfig (Some bad_config) running)) = Some bad_config \<and>
   Config running = Some old_config \<and>
   old_config \<noteq> bad_config \<and>
   fst (SaveConfig None running) = Panic \<and>
   Config (snd (SaveConfig None running)) = None"
  using run_SaveConfig_bad_config
  by (simp add: split_beta sample_configs SaveConfig_None)

section \<open>Reconfiguration: failure to persist\<close>

text \<open>
  C2, as the code has it. When writing the configuration file fails, \<^verbatim>\<open>SaveConfig\<close>
  returns the error of the write, and nothing is rolled back: the process-wide
  \<^verbatim>\<open>Config\<close> is the new configuration, and the authentication has already been set
  up from it (line 188 runs before line 192).
\<close>

theorem SaveConfig_persist_failure:
  assumes "SaveConfig cfg w = (Return (Some e), w')"
  shows "e = PersistError \<and> Config w' = cfg \<and>
         (\<exists>c. cfg = Some c \<and>
              auth_state w' = Some (Auth_JWTSecret (cfg_Auth c), Auth_JWTExpiry (cfg_Auth c),
                                    Auth_JWTRefreshExpiry (cfg_Auth c)))"
proof -
  from SaveConfig_Return [OF assms] obtain c where c: "cfg = Some c"
    and wr: "writeConfig (ConfigFileUsed w) (pre_write c w) = (Some e, w')"
    by blast
  from writeConfig_Some [OF wr] have "e = PersistError"
    by simp
  then show ?thesis
    using c writeConfig_fields(2,8) [OF wr] by (simp add: pre_write_fields)
qed

theorem SaveConfig_persist_failure_witness:
  "fst (SaveConfig (Some new_config) running_no_dir) = Return (Some PersistError) \<and>
   Config (snd (SaveConfig (Some new_config) running_no_dir)) = Some new_config \<and>
   auth_state (snd (SaveConfig (Some new_config) running_no_dir)) = Some (''new-secret'', 600, 7200)"
proof -
  have f: "fst (SaveConfig (Some new_config) running_no_dir) = Return (Some PersistError)"
    using run_SaveConfig_no_dir by (simp add: split_beta)
  then have h: "SaveConfig (Some new_config) running_no_dir
                  = (Return (Some PersistError), snd (SaveConfig (Some new_config) running_no_dir))"
    by (simp add: prod_eq_iff)
  from SaveConfig_persist_failure [OF h]
  have "Config (snd (SaveConfig (Some new_config) running_no_dir)) = Some new_config"
    and "auth_state (snd (SaveConfig (Some new_config) running_no_dir))
           = Some (''new-secret'', 600, 7200)"
    by (simp_all add: sample_configs)
  with f show ?thesis by simp
qed

text \<open>
  C2 as stated fails: with the configuration directory gone, \<^verbatim>\<open>SaveConfig\<close> returns
  the persistence error, yet the active configuration and the authentication state
  are the new ones, not the ones from before the call.
\<close>

theorem SaveConfig_no_rollback:
  "fst (SaveConfig (Some new_config) running_no_dir) = Return (Some PersistError) \<and>
   Config running_no_dir = Some old_config \<and>
   Config (snd (SaveConfig (Some new_config) running_no_dir)) = Some new_config \<and>
   new_config \<noteq> old_config \<and>
   auth_state running_no_dir = Some (''old-secret'', 900, 3600) \<and>
   auth_state (snd (SaveConfig (Some new_config) running_no_dir)) = Some (''new-secret'', 600, 7200)"
  using run_SaveConfig_no_dir by (simp add: split_beta sample_configs)

section \<open>Reconfiguration: the order of re-initialisation and persistence\<close>

text \<open>
  C3, as the code has it. In every call of \<^verbatim>\<open>SaveConfig\<close> that returns, the
  authentication and the database are re-initialised first (lines 188-189), from the new
  configuration, and the file is written after them (line 192): the call adds to the
  trace the authentication set-up, the database connection, the log message and, when the
  write succeeds, the write, in this order. No write precedes a re-initialisation.
\<close>

theorem SaveConfig_order:
  assumes "SaveConfig cfg w = (Return err, w')"
  shows "(\<exists>c. cfg = Some c \<and>
            trace w' = trace w @
              [AuthInit (Auth_JWTSecret (cfg_Auth c)) (Auth_JWTExpiry (cfg_Auth c))
                 (Auth_JWTRefreshExpiry (cfg_Auth c)),
               DbConnect (cfg_Db c),
               LogInfo (''saving config file to '' @ ConfigFileUsed w)]
              @ (if err = None then [FileWritten (ConfigFileUsed w)] else [])) \<and>
         \<not> happens_before is_write is_reinit (drop (length (trace w)) (trace w')) \<and>
         (err = None \<longrightarrow> happens_before is_reinit is_write (drop (length (trace w)) (trace w')))"
proof -
  from SaveConfig_Return [OF assms] obtain c where c: "cfg = Some c"
    and wr: "writeConfig (ConfigFileUsed w) (pre_write c w) = (err, w')"
    by blast
  have t: "trace w' = trace (pre_write c w)
             @ (if err = None then [FileWritten (ConfigFileUsed w)] else [])"
  proof (cases err)
    case None
    from wr have "writeConfig (ConfigFileUsed w) (pre_write c w) = (None, w')"
      by (simp add: None)
    from writeConfig_None(2) [OF this] show ?thesis by (simp add: None)
  next
    case (Some e)
    from wr have "writeConfig (ConfigFileUsed w) (pre_write c w) = (Some e, w')"
      by (simp add: Some)
    from writeConfig_Some [OF this] show ?thesis by (simp add: Some)
  qed
  have p: "trace (pre_write c w) = trace w @
              [AuthInit (Auth_JWTSecret (cfg_Auth c)) (Auth_JWTExpiry (cfg_Auth c))
                 (Auth_JWTRefreshExpiry (cfg_Auth c)),
               DbConnect (cfg_Db c),
               LogInfo (''saving config file to '' @ ConfigFileUsed w)]"
    by (simp add: pre_write_def)
  show ?thesis
    using c by (simp add: t p)
qed

theorem SaveConfig_order_witness:
  "fst (SaveConfig (Some new_config) running) = Return None \<and>
   trace (snd (SaveConfig (Some new_config) running)) =
     [AuthInit ''new-secret'' 600 7200,
      DbConnect (cfg_Db new_config),
      LogInfo ''saving config file to /home/ci/abstruse/abstruse-server.json'',
      FileWritten ''/home/ci/abstruse/abstruse-server.json''] \<and>
   happens_before is_reinit is_write (trace (snd (SaveConfig (Some new_config) running)))"
proof -
  have f: "fst (SaveConfig (Some new_config) running) = Return None"
    using run_SaveConfig_new_config by (simp add: split_beta)
  then have h: "SaveConfig (Some new_config) running
                  = (Return None, snd (SaveConfig (Some new_config) running))"
    by (simp add: prod_eq_iff)
  from SaveConfig_order [OF h]
  have "trace (snd (SaveConfig (Some new_config) running)) =
     [AuthInit ''new-secret'' 600 7200,
      DbConnect (cfg_Db new_config),
      LogInfo ''saving config file to /home/ci/abstruse/abstruse-server.json'',
      FileWritten ''/home/ci/abstruse/abstruse-server.json'']"
    and "happens_before is_reinit is_write (trace (snd (SaveConfig (Some new_config) running)))"
    by (simp_all add: sample_configs(7,9,11,12,13))
  with f show ?thesis by simp
qed

text \<open>
  C3 as stated fails: on a running server the write of the file is the last thing
  \<^verbatim>\<open>SaveConfig\<close> does, after authentication and database have been re-initialised,
  so the write does not happen before them.
\<close>

theorem SaveConfig_writes_last:
  "trace running = [] \<and>
   trace (snd (SaveConfig (Some new_config) running)) =
     [AuthInit ''new-secret'' 600 7200,
      DbConnect (cfg_Db new_config),
      LogInfo ''saving config file to /home/ci/abstruse/abstruse-server.json'',
      FileWritten ''/home/ci/abstruse/abstruse-server.json''] \<and>
   \<not> happens_before is_write is_reinit (trace (snd (SaveConfig (Some new_config) running)))"
  using run_SaveConfig_new_config by (simp add: split_beta sample_configs)

section \<open>Reconfiguration: a new JWT secret\<close>



lemma format_of_json: "format_of t = ''json'' \<longleftrightarrow> t = ''json''"
  by (simp add: format_of_def)




section \<open>Path normalisation\<close>

lemma InitTLS_paths_Resolve:
  "InitTLS_paths c w =
     (Resolve (Dir (ConfigFileUsed w)) (TLS_Cert (cfg_TLS c)),
      Resolve (Dir (ConfigFileUsed w)) (TLS_Key (cfg_TLS c)))"
  by (simp add: InitTLS_paths_def Resolve_def Let_def)

text \<open>
  C6. Resolving a path that resolution has made absolute changes nothing:
  \<open>Resolve d (Resolve d p) = Resolve d p\<close> once \<open>Resolve d p\<close> is absolute. So the
  paths \<^verbatim>\<open>InitTLS\<close> computes (lines 126-132) from a certificate or key field that
  holds such a resolved path, against the same directory, are the fields themselves.
\<close>

theorem Resolve_idempotent:
  assumes "HasPrefix (Resolve d p) ''/''"
  shows "Resolve d (Resolve d p) = Resolve d p \<and>
         (Dir (ConfigFileUsed w) = d \<and> TLS_Cert (cfg_TLS c) = Resolve d p
            \<longrightarrow> fst (InitTLS_paths c w) = TLS_Cert (cfg_TLS c)) \<and>
         (Dir (ConfigFileUsed w) = d \<and> TLS_Key (cfg_TLS c) = Resolve d p
            \<longrightarrow> snd (InitTLS_paths c w) = TLS_Key (cfg_TLS c))"
  using assms by (simp add: InitTLS_paths_Resolve Resolve_absolute)

theorem Resolve_idempotent_witness:
  "HasPrefix (Resolve ''/home/ci/abstruse'' ''certs/cert.pem'') ''/'' \<and>
   Resolve ''/home/ci/abstruse'' ''certs/cert.pem'' = ''/home/ci/abstruse/certs/cert.pem'' \<and>
   Resolve ''/home/ci/abstruse'' (Resolve ''/home/ci/abstruse'' ''certs/cert.pem'')
     = ''/home/ci/abstruse/certs/cert.pem'' \<and>
   Dir (ConfigFileUsed running) = ''/home/ci/abstruse'' \<and>
   InitTLS_paths
     (new_config\<lparr>cfg_TLS := \<lparr>TLS_Cert = Resolve ''/home/ci/abstruse'' ''certs/cert.pem'',
                              TLS_Key = Resolve ''/home/ci/abstruse'' ''certs/cert.pem''\<rparr>\<rparr>)
     running
     = (''/home/ci/abstruse/certs/cert.pem'', ''/home/ci/abstruse/certs/cert.pem'')"
proof -
  have h: "HasPrefix (Resolve ''/home/ci/abstruse'' ''certs/cert.pem'') ''/''"
    by code_simp
  have d: "Dir (ConfigFileUsed running) = ''/home/ci/abstruse''"
    by code_simp
  have r: "Resolve ''/home/ci/abstruse'' ''certs/cert.pem'' = ''/home/ci/abstruse/certs/cert.pem''"
    by code_simp
  show ?thesis
    using h d r
      Resolve_idempotent [OF h, of running
        "new_config\<lparr>cfg_TLS := \<lparr>TLS_Cert = Resolve ''/home/ci/abstruse'' ''certs/cert.pem'',
                                 TLS_Key = Resolve ''/home/ci/abstruse'' ''certs/cert.pem''\<rparr>\<rparr>"]
    by (simp add: prod_eq_iff)
qed

section \<open>Start-up: path-bearing fields\<close>

lemma normalized_fields:
  "TLS_Cert (cfg_TLS (normalized d c)) = Resolve d (TLS_Cert (cfg_TLS c))"
  "TLS_Key (cfg_TLS (normalized d c)) = Resolve d (TLS_Key (cfg_TLS c))"
  "Etcd_DataDir (cfg_Etcd (normalized d c)) = Resolve d (Etcd_DataDir (cfg_Etcd c))"
  "Log_Filename (cfg_Log (normalized d c)) = Resolve d (Log_Filename (cfg_Log c))"
  by (simp_all add: normalized_def)

lemma InitConfig_ConfigFileUsed:
  assumes "InitConfig w = (Return (), w')"
  shows "ConfigFileUsed w' = ConfigFile w'"
  using InitConfig_Return [OF assms] by (auto simp: ConfigFileUsed_def)

text \<open>
  C5, as the code has it. After \<^verbatim>\<open>InitConfig\<close> has returned, each of the four
  path-bearing fields is the decoded value resolved against the directory of the
  configuration file: unchanged when it starts with \<^verbatim>\<open>/\<close>, else joined under that
  directory. When the path of the configuration file is absolute, so is that directory
  and so are the four fields. (\<^verbatim>\<open>filepath.Dir\<close> of a relative path is relative, and
  then a relative field stays relative.)
\<close>

theorem InitConfig_absolute_paths:
  assumes "InitConfig w = (Return (), w')"
  shows "\<exists>c0 c.
           decode_config (lib w') (AllSettings w')
             (case Config w of None \<Rightarrow> zero_config | Some c \<Rightarrow> c) = Some c0 \<and>
           Config w' = Some c \<and>
           TLS_Cert (cfg_TLS c) = Resolve (Dir (ConfigFileUsed w')) (TLS_Cert (cfg_TLS c0)) \<and>
           TLS_Key (cfg_TLS c) = Resolve (Dir (ConfigFileUsed w')) (TLS_Key (cfg_TLS c0)) \<and>
           Etcd_DataDir (cfg_Etcd c) = Resolve (Dir (ConfigFileUsed w')) (Etcd_DataDir (cfg_Etcd c0)) \<and>
           Log_Filename (cfg_Log c) = Resolve (Dir (ConfigFileUsed w')) (Log_Filename (cfg_Log c0)) \<and>
           (HasPrefix (ConfigFileUsed w') ''/''
            \<longrightarrow> HasPrefix (TLS_Cert (cfg_TLS c)) ''/'' \<and>
                HasPrefix (TLS_Key (cfg_TLS c)) ''/'' \<and>
                HasPrefix (Etcd_DataDir (cfg_Etcd c)) ''/'' \<and>
                HasPrefix (Log_Filename (cfg_Log c)) ''/'')"
proof -
  from InitConfig_Return [OF assms] obtain p c0 where
    cf: "ConfigFile w' = p" and l: "lib w' = lib w" and
    d: "decode_config (lib w) (AllSettings w')
          (case Config w of None \<Rightarrow> zero_config | Some c \<Rightarrow> c) = Some c0" and
    c: "Config w' = Some (normalized (Dir p) c0)"
    by blast
  have u: "ConfigFileUsed w' = p"
    using InitConfig_ConfigFileUsed [OF assms] cf by simp
  have r: "HasPrefix (Resolve (Dir p) x) ''/''" if "HasPrefix p ''/''" for x
    using that by (simp add: Dir_rooted Resolve_rooted)
  show ?thesis
    using d c r by (simp add: l u normalized_fields)
qed

theorem InitConfig_absolute_paths_witness:
  "fst (InitConfig (InitDefaults [] installed)) = Return () \<and>
   HasPrefix (ConfigFileUsed (snd (InitConfig (InitDefaults [] installed)))) ''/'' \<and>
   (\<exists>c. Config (snd (InitConfig (InitDefaults [] installed))) = Some c \<and>
        HasPrefix (TLS_Cert (cfg_TLS c)) ''/'' \<and>
        HasPrefix (TLS_Key (cfg_TLS c)) ''/'' \<and>
        HasPrefix (Etcd_DataDir (cfg_Etcd c)) ''/'' \<and>
        HasPrefix (Log_Filename (cfg_Log c)) ''/'')"
proof -
  note r = run_InitConfig_installed [simplified split_beta prod.inject]
  have f: "fst (InitConfig (InitDefaults [] installed)) = Return ()"
    using r by simp
  then have h: "InitConfig (InitDefaults [] installed)
                  = (Return (), snd (InitConfig (InitDefaults [] installed)))"
    by (simp add: prod_eq_iff)
  have a: "HasPrefix (ConfigFileUsed (snd (InitConfig (InitDefaults [] installed)))) ''/''"
    using r by (simp add: HasPrefix_def)
  from InitConfig_absolute_paths [OF h] a
  have "\<exists>c. Config (snd (InitConfig (InitDefaults [] installed))) = Some c \<and>
        HasPrefix (TLS_Cert (cfg_TLS c)) ''/'' \<and>
        HasPrefix (TLS_Key (cfg_TLS c)) ''/'' \<and>
        HasPrefix (Etcd_DataDir (cfg_Etcd c)) ''/'' \<and>
        HasPrefix (Log_Filename (cfg_Log c)) ''/''"
    by blast
  with f a show ?thesis by simp
qed

text \<open>
  C5 as stated fails: started with the relative path \<^verbatim>\<open>abstruse.json\<close> for its
  configuration file, \<^verbatim>\<open>InitConfig\<close> returns and leaves the four path-bearing fields
  relative.
\<close>

theorem InitConfig_relative_config_file:
  "fst (InitConfig (InitDefaults ''abstruse.json'' started_in_place)) = Return () \<and>
   map_option (TLS_Cert \<circ> cfg_TLS)
     (Config (snd (InitConfig (InitDefaults ''abstruse.json'' started_in_place))))
     = Some ''cert.pem'' \<and>
   map_option (TLS_Key \<circ> cfg_TLS)
     (Config (snd (InitConfig (InitDefaults ''abstruse.json'' started_in_place))))
     = Some ''certs/key.pem'' \<and>
   map_option (Etcd_DataDir \<circ> cfg_Etcd)
     (Config (snd (InitConfig (InitDefaults ''abstruse.json'' started_in_place))))
     = Some ''etcd-data'' \<and>
   map_option (Log_Filename \<circ> cfg_Log)
     (Config (snd (InitConfig (InitDefaults ''abstruse.json'' started_in_place))))
     = Some ''abstruse-server.log'' \<and>
   \<not> HasPrefix ''cert.pem'' ''/'' \<and> \<not> HasPrefix ''certs/key.pem'' ''/'' \<and>
   \<not> HasPrefix ''etcd-data'' ''/'' \<and> \<not> HasPrefix ''abstruse-server.log'' ''/''"
  using run_InitConfig_in_place by (simp add: split_beta HasPrefix_def)

section \<open>Start-up: the first run\<close>

lemma andThen_abort:
  "m w = (r, w1) \<Longrightarrow> r = Panic \<or> (\<exists>e. r = Exit e) \<Longrightarrow>
   andThen m f w = ((case r of Exit e \<Rightarrow> Exit e | _ \<Rightarrow> Panic), w1)"
  by (auto simp: andThen_def)

lemma first_write_nil_Log:
  assumes "Log w = None"
  shows "\<exists>r w'. seq [(\<lambda>w. orFatal (viper_SafeWriteConfigAs (ConfigFileUsed w)) w),
                      (\<lambda>w. Log_Infof (msg w) w)] w = (r, w') \<and>
                (r = Panic \<or> r = Exit PersistError) \<and> Log w' = None \<and> Config w' = Config w"
proof -
  obtain r w1 where s: "viper_SafeWriteConfigAs (ConfigFileUsed w) w = (r, w1)"
    by (cases "viper_SafeWriteConfigAs (ConfigFileUsed w) w")
  note f = SafeWrite_fields [OF s]
  show ?thesis
  proof (cases r)
    case None
    with s f assms show ?thesis
      by (simp add: andThen_def orFatal_def Log_Infof_def)
  next
    case (Some e)
    with s SafeWrite_err [of "ConfigFileUsed w" w e w1] have "e = PersistError"
      by simp
    with Some s f assms show ?thesis
      by (simp add: andThen_def orFatal_def fatal_def)
  qed
qed

lemma write_default_config_nil_Log:
  assumes "Log w = None" and "\<not> fs_Exists w (ConfigFileUsed w)"
  shows "(fst (write_default_config w) = Panic \<or>
          fst (write_default_config w) = Exit DirectoryCreateError \<or>
          fst (write_default_config w) = Exit PersistError) \<and>
         Log (snd (write_default_config w)) = None \<and>
         Config (snd (write_default_config w)) = Config w"
proof -
  let ?rest = "seq [(\<lambda>w. orFatal (viper_SafeWriteConfigAs (ConfigFileUsed w)) w),
                    (\<lambda>w. Log_Infof (''config file save to '' @ ConfigFileUsed w) w)]"
  let ?mk = "\<lambda>w. if \<not> fs_Exists w (Dir (ConfigFile w))
                   then orFatal (fs_MakeDir (Dir (ConfigFile w))) w
                   else (Return (), w)"
  have u: "write_default_config w = andThen ?mk (\<lambda>_. ?rest) w"
    using assms(2) by (simp add: write_default_config_def)
  obtain r w1 where m: "?mk w = (r, w1)"
    by (cases "?mk w")
  have k: "Log w1 = None \<and> Config w1 = Config w \<and>
           (r = Return () \<or> r = Exit DirectoryCreateError)"
    using m assms(1)
    by (auto simp: orFatal_def fatal_def fs_MakeDir_def split: if_splits)
  show ?thesis
  proof (cases "r = Return ()")
    case True
    from first_write_nil_Log [of w1 "\<lambda>w. ''config file save to '' @ ConfigFileUsed w"] k
    obtain r2 w2 where
      2: "?rest w1 = (r2, w2)" and
      e: "r2 = Panic \<or> r2 = Exit PersistError" "Log w2 = None" "Config w2 = Config w"
      by auto
    have "andThen ?mk (\<lambda>_. ?rest) w = (r2, w2)"
      unfolding andThen_def m True using 2 by simp
    with u have "write_default_config w = (r2, w2)"
      by simp
    with e show ?thesis
      by auto
  next
    case False
    with k have r: "r = Exit DirectoryCreateError"
      by simp
    have "andThen ?mk (\<lambda>_. ?rest) w = (Exit DirectoryCreateError, w1)"
      unfolding andThen_def m r by simp
    with u have "write_default_config w = (Exit DirectoryCreateError, w1)"
      by simp
    with k show ?thesis
      by simp
  qed
qed

text \<open>
  C9. On the first run (no configuration file yet) with \<^verbatim>\<open>Log\<close> still nil, as it is
  when \<^verbatim>\<open>InitConfig\<close> is the first initialisation step, \<^verbatim>\<open>InitConfig\<close> never returns:
  once the directory is made and the file written, \<^verbatim>\<open>Log.Sugar()\<close> (line 91)
  dereferences the nil logger and panics (the only other ends are the fatal errors of
  making the directory and of writing the file), and \<^verbatim>\<open>Log\<close> and \<^verbatim>\<open>Config\<close> are
  still unassigned. \<^verbatim>\<open>Log\<close> is assigned only by the last statement of \<^verbatim>\<open>InitConfig\<close>:
  a call that returns has built it from the log section of the final \<^verbatim>\<open>Config\<close>.
\<close>

theorem InitConfig_first_run_nil_Log:
  "(Log w = None \<and>
    (if ConfigFile w = []
     then homedir w = Some h \<and> p = Join [h, ''abstruse'', ''abstruse-server.json'']
     else p = ConfigFile w) \<and>
    \<not> fs_Exists w p
    \<longrightarrow> (fst (InitConfig w) = Panic \<or>
         fst (InitConfig w) = Exit DirectoryCreateError \<or>
         fst (InitConfig w) = Exit PersistError) \<and>
        Log (snd (InitConfig w)) = None \<and>
        Config (snd (InitConfig w)) = Config w) \<and>
   (InitConfig w = (Return (), w')
    \<longrightarrow> (\<exists>c. Config w' = Some c \<and> Log w' = Some (Logger (cfg_Log c))))"
proof (rule conjI; rule impI)
  assume "InitConfig w = (Return (), w')"
  from InitConfig_Return [OF this]
  show "\<exists>c. Config w' = Some c \<and> Log w' = Some (Logger (cfg_Log c))"
    by auto
next
  assume a: "Log w = None \<and>
    (if ConfigFile w = []
     then homedir w = Some h \<and> p = Join [h, ''abstruse'', ''abstruse-server.json'']
     else p = ConfigFile w) \<and>
    \<not> fs_Exists w p"
  let ?w1 = "w\<lparr>ConfigFile := p\<rparr>"
  let ?w2 = "?w1\<lparr>vp := (vp ?w1)\<lparr>v_configFile := ConfigFile ?w1, v_configType := ''json'',
                                 v_envPrefix := ''abstruse'',
                                 v_envKeyReplacer := Some (CHR ''.'', CHR ''_''),
                                 v_automaticEnvApplied := True\<rparr>\<rparr>"
  from a have p: "p \<noteq> []"
    by (auto simp: default_path_nonempty split: if_splits)
  have s1: "default_config_file w = (Return (), ?w1)"
    using a by (cases w) (auto simp: default_config_file_def split: if_splits)
  have s2: "configure_viper ?w1 = (Return (), ?w2)"
    using p configure_viper_eq [of ?w1] by simp
  have n: "Log ?w2 = None" "\<not> fs_Exists ?w2 (ConfigFileUsed ?w2)"
    using a by (simp_all add: fs_Exists_def ConfigFileUsed_def)
  note s3 = write_default_config_nil_Log [OF n]
  have i: "InitConfig w =
             andThen write_default_config
               (\<lambda>_. seq [orFatal viper_ReadInConfig, orFatal viper_Unmarshal_Config,
                         normalize_paths, assign_logger]) ?w2"
    by (simp add: InitConfig_def andThen_def s1 s2)
  obtain r w3 where m: "write_default_config ?w2 = (r, w3)"
    by (cases "write_default_config ?w2")
  with s3 have r: "r = Panic \<or> r = Exit DirectoryCreateError \<or> r = Exit PersistError"
    and l: "Log w3 = None" "Config w3 = Config w"
    by simp_all
  from r have "r = Panic \<or> (\<exists>e. r = Exit e)"
    by auto
  from andThen_abort [of write_default_config ?w2 r w3
      "\<lambda>_. seq [orFatal viper_ReadInConfig, orFatal viper_Unmarshal_Config,
                normalize_paths, assign_logger]", OF m this] r
  have "InitConfig w = (r, w3)"
    unfolding i by auto
  with r l show "(fst (InitConfig w) = Panic \<or>
         fst (InitConfig w) = Exit DirectoryCreateError \<or>
         fst (InitConfig w) = Exit PersistError) \<and>
        Log (snd (InitConfig w)) = None \<and>
        Config (snd (InitConfig w)) = Config w"
    by simp
qed

theorem InitConfig_first_run_nil_Log_witness:
  "Log (InitDefaults [] startup) = None \<and>
   ConfigFile (InitDefaults [] startup) = [] \<and>
   homedir (InitDefaults [] startup) = Some ''/home/ci'' \<and>
   \<not> fs_Exists (InitDefaults [] startup) (Join [''/home/ci'', ''abstruse'', ''abstruse-server.json'']) \<and>
   fst (InitConfig (InitDefaults [] startup)) = Panic \<and>
   Log (snd (InitConfig (InitDefaults [] startup))) = None \<and>
   fst (InitConfig (InitDefaults [] installed)) = Return () \<and>
   (\<exists>c. Config (snd (InitConfig (InitDefaults [] installed))) = Some c \<and>
        Log (snd (InitConfig (InitDefaults [] installed))) = Some (Logger (cfg_Log c)))"
proof -
  let ?w = "InitDefaults [] startup"
  let ?p = "Join [''/home/ci'', ''abstruse'', ''abstruse-server.json'']"
  note s = sample_startup [simplified prod.inject]
  have a: "Log ?w = None" "ConfigFile ?w = []" "homedir ?w = Some ''/home/ci''" "\<not> fs_Exists ?w ?p"
    using s by simp_all
  have b: "fst (InitConfig ?w) = Panic"
    using run_InitConfig_startup by (simp add: split_beta)
  have f: "fst (InitConfig (InitDefaults [] installed)) = Return ()"
    using run_InitConfig_installed by (simp add: split_beta)
  then have h: "InitConfig (InitDefaults [] installed)
                  = (Return (), snd (InitConfig (InitDefaults [] installed)))"
    by (simp add: prod_eq_iff)
  from InitConfig_first_run_nil_Log [of ?w "''/home/ci''" ?p "snd (InitConfig (InitDefaults [] installed))"] a
  have "Log (snd (InitConfig ?w)) = None"
    by simp
  moreover from InitConfig_first_run_nil_Log
    [of "InitDefaults [] installed" "''/home/ci''" ?p "snd (InitConfig (InitDefaults [] installed))"] h
  have "\<exists>c. Config (snd (InitConfig (InitDefaults [] installed))) = Some c \<and>
        Log (snd (InitConfig (InitDefaults [] installed))) = Some (Logger (cfg_Log c))"
    by blast
  ultimately show ?thesis
    using a b f by simp
qed

text \<open>
  C8 at its scenario. In a fresh environment (\<^verbatim>\<open>Log\<close> nil, no directory
  \<^verbatim>\<open>/home/ci/abstruse\<close>), \<^verbatim>\<open>InitConfig\<close> makes the directory and writes the default
  configuration file, and then panics on the nil logger at line 91: the file is never
  read, and \<^verbatim>\<open>Config\<close> is still nil, so there is no \<^verbatim>\<open>Config.TLS.Cert\<close>.
\<close>

theorem InitConfig_fresh_environment:
  "ConfigFile (InitDefaults [] startup) = [] \<and>
   Log (InitDefaults [] startup) = None \<and>
   \<not> fs_Exists (InitDefaults [] startup) ''/home/ci/abstruse'' \<and>
   fst (InitConfig (InitDefaults [] startup)) = Panic \<and>
   trace (snd (InitConfig (InitDefaults [] startup))) =
     [DirMade ''/home/ci/abstruse'', FileWritten ''/home/ci/abstruse/abstruse-server.json''] \<and>
   fs_Exists (snd (InitConfig (InitDefaults [] startup))) ''/home/ci/abstruse'' \<and>
   fs_Exists (snd (InitConfig (InitDefaults [] startup))) ''/home/ci/abstruse/abstruse-server.json'' \<and>
   Config (snd (InitConfig (InitDefaults [] startup))) = None"
  using run_InitConfig_startup sample_startup by (simp add: split_beta)


section \<open>Start-up: precedence of the configuration sources\<close>



























section \<open>The master application: ReadAndParseConfig\<close>

lemma json_Unmarshal_not_object:
  "\<forall>kvs. j \<noteq> JObject kvs \<Longrightarrow> fst (json_Unmarshal N (JSON j) c) = c"
  by (cases j) (simp_all add: json_Unmarshal_def)

text \<open>
  C10, as the code has it. \<^verbatim>\<open>ReadAndParseConfig\<close> returns an error exactly when
  reading the file fails or \<^verbatim>\<open>json.Unmarshal\<close> returns one. When reading fails, and
  when the content is not valid JSON, the returned \<^verbatim>\<open>Config\<close> is the zero value. For
  valid JSON the returned \<^verbatim>\<open>Config\<close> is what \<^verbatim>\<open>json.Unmarshal\<close> left in it, also
  when that call returns a type error: it is the zero value for a document that is not
  an object, and otherwise holds whatever the object's fitting values set. On success
  the error is nil.
\<close>

theorem ReadAndParseConfig_result:
  "(snd (ReadAndParseConfig N disk path) \<noteq> None \<longleftrightarrow>
      (ioutil_ReadFile disk path = None \<or>
       (\<exists>doc. ioutil_ReadFile disk path = Some doc \<and>
              snd (json_Unmarshal N doc (zero_app_Config N))))) \<and>
   (ioutil_ReadFile disk path = None
      \<longrightarrow> ReadAndParseConfig N disk path = (zero_app_Config N, Some ErrorReading)) \<and>
   (ioutil_ReadFile disk path = Some Garbage
      \<longrightarrow> ReadAndParseConfig N disk path = (zero_app_Config N, Some ErrorParsing)) \<and>
   (\<forall>j. ioutil_ReadFile disk path = Some (JSON j)
      \<longrightarrow> fst (ReadAndParseConfig N disk path)
            = fst (json_Unmarshal N (JSON j) (zero_app_Config N)) \<and>
          snd (ReadAndParseConfig N disk path)
            = (if snd (json_Unmarshal N (JSON j) (zero_app_Config N))
               then Some ErrorParsing else None) \<and>
          ((\<forall>kvs. j \<noteq> JObject kvs)
             \<longrightarrow> fst (ReadAndParseConfig N disk path) = zero_app_Config N))"
proof (cases "ioutil_ReadFile disk path")
  case None
  then show ?thesis by (simp add: ReadAndParseConfig_def)
next
  case (Some doc)
  show ?thesis
  proof (cases doc)
    case Garbage
    with Some show ?thesis
      by (simp add: ReadAndParseConfig_def json_Unmarshal_def)
  next
    case (JSON j)
    with Some json_Unmarshal_not_object [of j N "zero_app_Config N"] show ?thesis
      by (auto simp: ReadAndParseConfig_def split: prod.splits)
  qed
qed

lemma sample_disk0:
  "ioutil_ReadFile disk0 ''/etc/abstruse/none.json'' = None"
  "ioutil_ReadFile disk0 ''/etc/abstruse/broken.json'' = Some Garbage"
  "ioutil_ReadFile disk0 ''/etc/abstruse/master.json'' =
     Some (JSON (JObject [(''cert'', JString ''/etc/ssl/cert.pem''),
                      (''key'', JString ''/etc/ssl/key.pem''),
                      (''etcd'', JObject []),
                      (''grpc'', JObject []),
                      (''log_level'', JString ''info'')]))"
  by (simp_all add: ioutil_ReadFile_def disk0_def)

lemma sample_master_json:
  "json_Unmarshal nested0
     (JSON (JObject [(''cert'', JString ''/etc/ssl/cert.pem''),
                      (''key'', JString ''/etc/ssl/key.pem''),
                      (''etcd'', JObject []),
                      (''grpc'', JObject []),
                      (''log_level'', JString ''info'')]))
     (zero_app_Config nested0)
   = (\<lparr>Cert = ''/etc/ssl/cert.pem'', Key = ''/etc/ssl/key.pem'', Etcd = (), GRPC = (),
        LogLevel = ''info''\<rparr>, False)"
  by code_simp

theorem ReadAndParseConfig_result_witness:
  "ReadAndParseConfig nested0 disk0 ''/etc/abstruse/none.json''
     = (zero_app_Config nested0, Some ErrorReading) \<and>
   ReadAndParseConfig nested0 disk0 ''/etc/abstruse/broken.json''
     = (zero_app_Config nested0, Some ErrorParsing) \<and>
   ReadAndParseConfig nested0 disk0 ''/etc/abstruse/master.json''
     = (\<lparr>Cert = ''/etc/ssl/cert.pem'', Key = ''/etc/ssl/key.pem'', Etcd = (), GRPC = (),
          LogLevel = ''info''\<rparr>, None)"
proof -
  from ReadAndParseConfig_result [of nested0 disk0 "''/etc/abstruse/none.json''"]
  have 1: "ReadAndParseConfig nested0 disk0 ''/etc/abstruse/none.json''
             = (zero_app_Config nested0, Some ErrorReading)"
    by (simp add: sample_disk0)
  from ReadAndParseConfig_result [of nested0 disk0 "''/etc/abstruse/broken.json''"]
  have 2: "ReadAndParseConfig nested0 disk0 ''/etc/abstruse/broken.json''
             = (zero_app_Config nested0, Some ErrorParsing)"
    by (simp add: sample_disk0)
  from ReadAndParseConfig_result [of nested0 disk0 "''/etc/abstruse/master.json''"]
  have 3: "ReadAndParseConfig nested0 disk0 ''/etc/abstruse/master.json''
     = (\<lparr>Cert = ''/etc/ssl/cert.pem'', Key = ''/etc/ssl/key.pem'', Etcd = (), GRPC = (),
          LogLevel = ''info''\<rparr>, None)"
    by (simp add: sample_disk0 sample_master_json prod_eq_iff)
  from 1 2 3 show ?thesis by simp
qed

text \<open>
  C10 as stated fails: for a file whose \<^verbatim>\<open>cert\<close> is a string and whose \<^verbatim>\<open>log_level\<close>
  is a number, \<^verbatim>\<open>ReadAndParseConfig\<close> returns the parsing error together with a
  \<^verbatim>\<open>Config\<close> whose \<^verbatim>\<open>Cert\<close> is set, not the zero value.
\<close>

theorem ReadAndParseConfig_partial_on_type_error:
  "ioutil_ReadFile disk0 ''/etc/abstruse/typo.json''
     = Some (JSON (JObject [(''cert'', JString ''/etc/ssl/cert.pem''),
                            (''log_level'', JNumber ''5'')])) \<and>
   ReadAndParseConfig nested0 disk0 ''/etc/abstruse/typo.json''
     = (\<lparr>Cert = ''/etc/ssl/cert.pem'', Key = [], Etcd = (), GRPC = (), LogLevel = []\<rparr>,
        Some ErrorParsing) \<and>
   zero_app_Config nested0 = \<lparr>Cert = [], Key = [], Etcd = (), GRPC = (), LogLevel = []\<rparr> \<and>
   fst (ReadAndParseConfig nested0 disk0 ''/etc/abstruse/typo.json'') \<noteq> zero_app_Config nested0"
  by code_simp

end
